theory Spec2Isabelle
  imports Main
begin

section \<open>Data model of \<open>src/http.ts\<close>\<close>

text \<open>
  The crawler's HTTP layer is asynchronous TypeScript. The embedding makes every effect a
  value: the scheduler's queue, the crawler's \<open>active\<close> flag, the cancel token and the
  sequence of observable calls (resolver calls, network attempts, logger lines) live in a
  record \<open>world\<close> that every operation takes and returns; a rejected promise is \<open>Inl\<close> of
  an error and a fulfilled one \<open>Inr\<close> of its value. An \<open>await\<close> runs the awaited call to
  its settlement before the next expression of the same async function is evaluated.
\<close>

text \<open>axios's \<open>Method\<close>, a string.\<close>

type_synonym Method = string

text \<open>\<open>IncomingHttpHeaders\<close>: a header value is a string, a list of strings or undefined.\<close>

datatype hval = HStr string | HList "string list" | HUndefined

type_synonym headers = "string \<rightharpoonup> hval"

text \<open>
  \<open>download.DownloadOptions\<close> is an object; the code reads none of its keys and writes
  \<open>headers\<close> and \<open>proxy\<close>. A key can be present with the value undefined.
\<close>

datatype oval = OHeaders headers | OStr string | OUndefined | OOther string

type_synonym download_options = "string \<rightharpoonup> oval"

text \<open>
  \<open>Body\<close>: the code distinguishes nothing but the \<open>DownloadBody\<close> it builds itself
  (\<open>{ filepath, options }\<close>); every other payload is opaque data.
\<close>

datatype body = Data string | DownloadBody string "download_options option"

text \<open>\<open>UrlCustomer\<close> and \<open>Url = string | UrlCustomer\<close>.\<close>

record url_customer =
  uc_url :: string
  uc_method :: "Method option"
  uc_body :: "body option"
  uc_headers :: "headers option"

datatype url = UrlString string | UrlObject url_customer

text \<open>
  Modelled from the spec: the class \<open>Task\<close> is declared in \<open>./scheduler\<close>, which is not
  among the sources; the code only constructs it, as
  \<open>new Task(type, method, url, body, headers)\<close> with the last two arguments optional. The
  spec's Task is a unit of work with a kind, a method, a URL, a body and headers; the
  record keeps the constructor's arguments as passed.
\<close>

record task =
  task_type :: string
  task_method :: "Method option"
  task_url :: string
  task_body :: "body option"
  task_headers :: "headers option"

definition Task :: "string \<Rightarrow> Method option \<Rightarrow> string \<Rightarrow> body option \<Rightarrow> headers option \<Rightarrow> task" where
  "Task ty m u b h =
     \<lparr>task_type = ty, task_method = m, task_url = u, task_body = b, task_headers = h\<rparr>"

text \<open>
  What a promise is rejected with: an \<open>Error\<close>, a \<open>TypeError\<close>, p-timeout's \<open>TimeoutError\<close>
  (all three are instances of \<open>Error\<close>), or axios's \<open>Cancel\<close>, which is a plain object and
  no \<open>Error\<close>. The message of a \<open>TimeoutError\<close> is abridged: p-timeout's also names the
  milliseconds.
\<close>

datatype err = Error string | TypeError string | TimeoutError | Cancel string

definition message :: "err \<Rightarrow> string" where
  "message e =
     (case e of Error m \<Rightarrow> m | TypeError m \<Rightarrow> m | TimeoutError \<Rightarrow> ''Promise timed out''
      | Cancel m \<Rightarrow> m)"

text \<open>The axios request config built by \<open>Http.request\<close> and echoed in \<open>response.config\<close>.\<close>

record proxy_config =
  host :: string
  port :: nat

record basic_auth =
  username :: string
  password :: string

datatype cancel_token = SourceToken

record req_config =
  cfg_url :: string
  cfg_method :: "Method option"
  cfg_proxy :: "proxy_config option"
  cfg_timeout :: nat
  cfg_data :: "body option"
  cfg_auth :: "basic_auth option"
  cfg_headers :: "headers option"
  cfg_cancelToken :: "cancel_token option"

record raw_response =
  res_config :: req_config
  res_data :: string
  res_status :: nat

text \<open>
  \<open>Response\<close>: the axios response extended by \<open>createResponse\<close>; its callbacks are the
  functions \<open>follow\<close>, \<open>retry\<close>, \<open>downloadInQueue\<close> and \<open>download\<close> below, which take the
  response they close over as an argument.
\<close>

record response =
  raw :: raw_response
  times :: nat

text \<open>The four resolvers of a crawler.\<close>

datatype resolver_kind = Proxy | UserAgent | Headers | Auth

text \<open>
  What the outside can observe of an execution, in order: a resolver's \<open>resolve\<close> being
  called and its promise settling, \<open>axios.request(config)\<close> being called for attempt \<open>k\<close>,
  the download stream being opened for attempt \<open>k\<close>, and the two \<open>logger.error\<close> lines
  (attempt number and retries left; final download failure with the error's message).
\<close>

datatype event =
    Invoked resolver_kind
  | Settled resolver_kind
  | AxiosRequest nat req_config
  | DownloadStream nat
  | LogAttemptFailed string string nat nat
  | LogDownloadFailed string string

record world =
  active :: bool
  queue :: "task list"
  cancel_reason :: "string option"
  trace :: "event list"

text \<open>
  Object spread of an optional object: \<open>...(x || {})\<close> and \<open>...x\<close> with \<open>x\<close> undefined
  both copy no key.
\<close>

definition spread :: "('k \<rightharpoonup> 'v) option \<Rightarrow> ('k \<rightharpoonup> 'v)" where
  "spread x = (case x of None \<Rightarrow> Map.empty | Some m \<Rightarrow> m)"

section \<open>Scheduler queue\<close>

text \<open>
  Modelled from the spec: \<open>Scheduler.push\<close> lives in \<open>./scheduler\<close>, which is not among
  the sources. The spec's Task Queue contract: \<open>push(task)\<close> appends to the tail; there is
  no uniqueness constraint.
\<close>

definition scheduler_push :: "task \<Rightarrow> world \<Rightarrow> world" where
  "scheduler_push t w = w\<lparr>queue := queue w @ [t]\<rparr>"

section \<open>Task injection (\<open>createResponse\<close>)\<close>

text \<open>\<open>Http.download\<close>: append a download task to the pool.\<close>

definition http_download :: "string \<Rightarrow> string \<Rightarrow> download_options option \<Rightarrow> world \<Rightarrow> world" where
  "http_download u filepath options w =
     scheduler_push (Task ''download'' (Some ''GET'') u (Some (DownloadBody filepath options)) None) w"

text \<open>Decimal rendering of a number, as JavaScript's \<open>+\<close> does for \<open>host + ":" + port\<close>.\<close>

definition digit_char :: "nat \<Rightarrow> char" where
  "digit_char d =
     (if d = 0 then CHR ''0'' else if d = 1 then CHR ''1'' else if d = 2 then CHR ''2''
      else if d = 3 then CHR ''3'' else if d = 4 then CHR ''4'' else if d = 5 then CHR ''5''
      else if d = 6 then CHR ''6'' else if d = 7 then CHR ''7'' else if d = 8 then CHR ''8''
      else CHR ''9'')"

function decimal :: "nat \<Rightarrow> string" where
  "decimal n = (if n < 10 then [digit_char n] else decimal (n div 10) @ [digit_char (n mod 10)])"
  by pat_completeness auto
termination
  by (relation "measure id") auto

declare decimal.simps [simp del]

text \<open>\<open>_proxy ? _proxy.host + ":" + _proxy.port : undefined\<close>\<close>

definition proxy_string :: "proxy_config option \<Rightarrow> string option" where
  "proxy_string p = (case p of None \<Rightarrow> None | Some c \<Rightarrow> Some (host c @ '':'' @ decimal (port c)))"

text \<open>\<open>{ ...response.config.headers }\<close> followed by \<open>delete pureHeaders["Accept"]\<close>.\<close>

definition pureHeaders :: "response \<Rightarrow> headers" where
  "pureHeaders r =
     spread (cfg_headers (res_config (raw r))) |` (- {''Accept''})"

text \<open>
  \<open>{ headers: pureHeaders, proxy, ...(options || {}) }\<close>: an object spread copies the
  keys of the later object over the earlier ones, whole values at a time.
\<close>

definition inherited_options :: "response \<Rightarrow> download_options option \<Rightarrow> download_options" where
  "inherited_options r options =
     [''headers'' \<mapsto> OHeaders (pureHeaders r),
      ''proxy'' \<mapsto> (case proxy_string (cfg_proxy (res_config (raw r))) of
                      None \<Rightarrow> OUndefined | Some p \<Rightarrow> OStr p)]
     ++ spread options"

definition downloadInQueue ::
  "response \<Rightarrow> string \<Rightarrow> string \<Rightarrow> download_options option \<Rightarrow> world \<Rightarrow> world" where
  "downloadInQueue r u filepath options w =
     http_download u filepath (Some (inherited_options r options)) w"

text \<open>
  JavaScript truthiness of a \<open>Url\<close>: a string is truthy unless empty, an object always.
\<close>

definition truthy_url :: "url \<Rightarrow> bool" where
  "truthy_url nextUrl = (case nextUrl of UrlString s \<Rightarrow> s \<noteq> [] | UrlObject _ \<Rightarrow> True)"

definition follow :: "response \<Rightarrow> url \<Rightarrow> world \<Rightarrow> world" where
  "follow r nextUrl w =
     (if active w \<and> truthy_url nextUrl then
        let hdrs = [''Reference'' \<mapsto> HStr (cfg_url (res_config (raw r)))];
            t = (case nextUrl of
                   UrlString s \<Rightarrow> Task ''request'' (Some ''GET'') s None (Some hdrs)
                 | UrlObject c \<Rightarrow>
                     Task ''request'' (uc_method c) (uc_url c) (uc_body c)
                       (Some (hdrs ++ spread (uc_headers c))))
        in scheduler_push t w
      else w)"

text \<open>\<open>$.retry\<close>; \<open>response.config.method || "GET"\<close> also replaces an empty method string.\<close>

definition retry :: "response \<Rightarrow> world \<Rightarrow> world" where
  "retry r w =
     (let c = res_config (raw r);
          m = (case cfg_method c of None \<Rightarrow> ''GET'' | Some s \<Rightarrow> if s = [] then ''GET'' else s)
      in scheduler_push (Task ''request'' (Some m) (cfg_url c) (cfg_data c) (cfg_headers c)) w)"

section \<open>Retry and timeout combinators\<close>

text \<open>
  \<open>p-timeout\<close> and \<open>p-retry\<close> are libraries. \<open>pTimeout(p, ms)\<close> starts a timer of \<open>ms\<close>
  milliseconds and rejects with its \<open>TimeoutError\<close> unless \<open>p\<close> settles first. Which of
  the two comes first is the outside's choice: a promise under a timer either loses to the
  timer, or settles before it after some milliseconds with a rejection or a value. While
  the promise is pending the user may also call \<open>Http.cancel\<close>: \<open>CancelCalled p\<close> is a promise
  in flight at such a call that goes on as \<open>p\<close> unless the call aborts it. p-timeout itself
  knows nothing of the call.
\<close>

datatype 'a settle = TimerFirst | Settles nat "err + 'a" | CancelCalled "'a settle"

fun pTimeout :: "'a settle \<Rightarrow> nat \<Rightarrow> err + (nat \<times> 'a)" where
  "pTimeout TimerFirst ms = Inl TimeoutError"
| "pTimeout (Settles t r) ms = (case r of Inl e \<Rightarrow> Inl e | Inr v \<Rightarrow> Inr (t, v))"
| "pTimeout (CancelCalled p) ms = pTimeout p ms"

text \<open>
  \<open>operation.mainError()\<close> of the \<open>retry\<close> package, with which p-retry rejects once no
  retry is left: the error whose message has occurred most often so far, the latest one
  on a tie.
\<close>

fun mainError_loop :: "err list \<Rightarrow> err list \<Rightarrow> err option \<Rightarrow> nat \<Rightarrow> err option" where
  "mainError_loop seen [] me mc = me"
| "mainError_loop seen (e # es) me mc =
     (let c = Suc (length (filter (\<lambda>x. message x = message e) seen))
      in if mc \<le> c then mainError_loop (seen @ [e]) es (Some e) c
         else mainError_loop (seen @ [e]) es me mc)"

definition mainError :: "err list \<Rightarrow> err option" where
  "mainError errs = mainError_loop [] errs None 0"

text \<open>
  \<open>pRetry(run, { retries, onFailedAttempt })\<close> (p-retry 4): attempts are numbered from 1
  and run one after the other. A fulfilled attempt fulfils the whole. A rejected attempt
  ends the whole at once, with no call of \<open>onFailedAttempt\<close> and no further attempt, in two
  cases: when the rejection is not an \<open>Error\<close> (axios's \<open>Cancel\<close>), the whole rejects with a new
  \<open>TypeError\<close> that quotes the rejection's \<open>toString()\<close>; when it is a \<open>TypeError\<close> whose
  message is not one of the four network messages of \<open>fetch\<close>, the whole rejects with it.
  (The third such case is the library's own \<open>AbortError\<close>, which only the retried function
  could construct; neither \<open>run\<close> of \<open>http.ts\<close> does.) Every other rejection first calls
  \<open>onFailedAttempt\<close> with the attempt number and \<open>retriesLeft = retries - (attemptNumber - 1)\<close>,
  then runs the next attempt if a retry is left and rejects otherwise.
\<close>

definition isNetworkError :: "string \<Rightarrow> bool" where
  "isNetworkError msg =
     (msg \<in> set [''Failed to fetch'', ''NetworkError when attempting to fetch resource.'',
                 ''The Internet connection appears to be offline.'', ''Network request failed''])"

definition dquote :: char where
  "dquote = CHR 0x22"

text \<open>\<open>Cancel.prototype.toString\<close>: \<open>'Cancel' + (this.message ? ': ' + this.message : '')\<close>.\<close>

definition cancel_toString :: "string \<Rightarrow> string" where
  "cancel_toString m = (if m = [] then ''Cancel'' else ''Cancel: '' @ m)"

definition non_error_thrown :: "string \<Rightarrow> err" where
  "non_error_thrown shown =
     TypeError (''Non-error was thrown: '' @ [dquote] @ shown @ [dquote]
                  @ ''. You should only throw errors.'')"

text \<open>What p-retry rejects with at once, if the rejection of an attempt is not retried.\<close>

definition exit_early :: "err \<Rightarrow> err option" where
  "exit_early e =
     (case e of
        Cancel m \<Rightarrow> Some (non_error_thrown (cancel_toString m))
      | TypeError m \<Rightarrow> if isNetworkError m then None else Some (TypeError m)
      | _ \<Rightarrow> None)"

fun pRetry_loop ::
  "(nat \<Rightarrow> 's \<Rightarrow> 's \<times> (err + 'a)) \<Rightarrow> (err \<Rightarrow> nat \<Rightarrow> nat \<Rightarrow> 's \<Rightarrow> 's) \<Rightarrow> nat \<Rightarrow> err list \<Rightarrow> nat \<Rightarrow> nat \<Rightarrow> 's
     \<Rightarrow> 's \<times> (err + 'a)" where
  "pRetry_loop run onFailedAttempt retries errs attemptNumber 0 s =
     (case run attemptNumber s of
        (s1, Inr v) \<Rightarrow> (s1, Inr v)
      | (s1, Inl e) \<Rightarrow>
          (case exit_early e of
             Some e' \<Rightarrow> (s1, Inl e')
           | None \<Rightarrow>
               (onFailedAttempt e attemptNumber (retries - (attemptNumber - 1)) s1,
                Inl (case mainError (errs @ [e]) of None \<Rightarrow> e | Some m \<Rightarrow> m))))"
| "pRetry_loop run onFailedAttempt retries errs attemptNumber (Suc left) s =
     (case run attemptNumber s of
        (s1, Inr v) \<Rightarrow> (s1, Inr v)
      | (s1, Inl e) \<Rightarrow>
          (case exit_early e of
             Some e' \<Rightarrow> (s1, Inl e')
           | None \<Rightarrow>
               pRetry_loop run onFailedAttempt retries (errs @ [e]) (Suc attemptNumber) left
                 (onFailedAttempt e attemptNumber (retries - (attemptNumber - 1)) s1)))"

definition pRetry ::
  "(nat \<Rightarrow> 's \<Rightarrow> 's \<times> (err + 'a)) \<Rightarrow> (err \<Rightarrow> nat \<Rightarrow> nat \<Rightarrow> 's \<Rightarrow> 's) \<Rightarrow> nat \<Rightarrow> 's \<Rightarrow> 's \<times> (err + 'a)" where
  "pRetry run onFailedAttempt retries s = pRetry_loop run onFailedAttempt retries [] 1 retries s"

definition log :: "event \<Rightarrow> world \<Rightarrow> world" where
  "log ev w = w\<lparr>trace := trace w @ [ev]\<rparr>"

section \<open>Request pipeline (\<open>Http.request\<close>)\<close>

text \<open>
  A resolver is an external async function; the same resolver may answer differently each
  time it is called, so it is a function of the number of its earlier calls as well as of
  \<open>(url, method, body)\<close>. It rejects or returns a value or undefined.
\<close>

type_synonym 'v resolver = "nat \<Rightarrow> string \<Rightarrow> Method \<Rightarrow> body option \<Rightarrow> err + 'v option"

record crawler =
  opt_retry :: nat
  opt_timeout :: nat
  crawler_proxy :: "proxy_config resolver option"
  crawler_userAgent :: "string resolver option"
  crawler_headers :: "headers resolver option"
  crawler_auth :: "basic_auth resolver option"
  provider_defaultHeaders :: "headers option"
  provider_beforeRequest :: "(req_config \<Rightarrow> err + req_config) option"

fun is_invoked :: "resolver_kind \<Rightarrow> event \<Rightarrow> bool" where
  "is_invoked k (Invoked k') = (k = k')"
| "is_invoked k _ = False"

definition invocations :: "resolver_kind \<Rightarrow> event list \<Rightarrow> nat" where
  "invocations k tr = length (filter (is_invoked k) tr)"

text \<open>
  One element of the array literal at lines 115-120, \<open>r ? await r.resolve(url, method, body) : dflt\<close>:
  the call is made and awaited on the spot, so it has settled before the next element is
  evaluated, and a rejection leaves the function at once.
\<close>

definition await_resolve ::
  "resolver_kind \<Rightarrow> 'v resolver option \<Rightarrow> 'v option \<Rightarrow> string \<Rightarrow> Method \<Rightarrow> body option \<Rightarrow> world
     \<Rightarrow> world \<times> (err + 'v option)" where
  "await_resolve k r dflt u m b w =
     (case r of
        None \<Rightarrow> (w, Inr dflt)
      | Some f \<Rightarrow> (log (Settled k) (log (Invoked k) w), f (invocations k (trace w)) u m b))"

definition resolve_all ::
  "crawler \<Rightarrow> string \<Rightarrow> Method \<Rightarrow> body option \<Rightarrow> world
     \<Rightarrow> world \<times> (err + proxy_config option \<times> string option \<times> headers option \<times> basic_auth option)" where
  "resolve_all cr u m b w =
     (case await_resolve Proxy (crawler_proxy cr) None u m b w of
        (w1, Inl e) \<Rightarrow> (w1, Inl e)
      | (w1, Inr rproxy) \<Rightarrow>
     (case await_resolve UserAgent (crawler_userAgent cr) None u m b w1 of
        (w2, Inl e) \<Rightarrow> (w2, Inl e)
      | (w2, Inr ruserAgent) \<Rightarrow>
     (case await_resolve Headers (crawler_headers cr) (Some Map.empty) u m b w2 of
        (w3, Inl e) \<Rightarrow> (w3, Inl e)
      | (w3, Inr rheaders) \<Rightarrow>
     (case await_resolve Auth (crawler_auth cr) None u m b w3 of
        (w4, Inl e) \<Rightarrow> (w4, Inl e)
      | (w4, Inr rauth) \<Rightarrow> (w4, Inr (rproxy, ruserAgent, rheaders, rauth))))))"

text \<open>
  The \<open>config\<close> object of lines 122-137. \<open>_userAgent ? {...} : {}\<close> treats an empty string
  like undefined.
\<close>

definition userAgent_header :: "string option \<Rightarrow> headers" where
  "userAgent_header ua =
     (case ua of None \<Rightarrow> Map.empty
      | Some s \<Rightarrow> if s = [] then Map.empty else [''User-Agent'' \<mapsto> HStr s])"

definition build_config ::
  "crawler \<Rightarrow> string \<Rightarrow> Method \<Rightarrow> body option \<Rightarrow> headers option
     \<Rightarrow> proxy_config option \<Rightarrow> string option \<Rightarrow> headers option \<Rightarrow> basic_auth option \<Rightarrow> req_config" where
  "build_config cr u m b httpHeaders rproxy ruserAgent rheaders rauth =
     \<lparr>cfg_url = u,
      cfg_method = Some m,
      cfg_proxy = rproxy,
      cfg_timeout = opt_timeout cr,
      cfg_data = b,
      cfg_auth = rauth,
      cfg_headers = Some ([''Reference'' \<mapsto> HStr u]
                          ++ spread (provider_defaultHeaders cr)
                          ++ spread httpHeaders
                          ++ spread rheaders
                          ++ userAgent_header ruserAgent),
      cfg_cancelToken = Some SourceToken\<rparr>"

text \<open>\<open>if (provider.beforeRequest) await provider.beforeRequest(config)\<close>: the hook may
  change the config in place or throw.\<close>

definition beforeRequest :: "crawler \<Rightarrow> req_config \<Rightarrow> err + req_config" where
  "beforeRequest cr config =
     (case provider_beforeRequest cr of None \<Rightarrow> Inr config | Some hook \<Rightarrow> hook config)"

text \<open>\<open>Http.cancel\<close>: trips the token of \<open>this.source\<close>; a tripped token keeps its reason.\<close>

definition cancel :: "world \<Rightarrow> world" where
  "cancel w =
     (case cancel_reason w of
        None \<Rightarrow> w\<lparr>cancel_reason := Some ''Operation canceled by the user.''\<rparr>
      | Some _ \<Rightarrow> w)"

text \<open>
  The network is an oracle: what \<open>axios.request(config)\<close> does on attempt \<open>k\<close>, and when the
  user calls \<open>Http.cancel\<close> while that attempt is in flight. axios itself handles the
  config's cancel token: a request whose token is tripped, be it before the request starts
  or while it is in flight, rejects with the token's reason, a \<open>Cancel\<close>. A request whose
  config has no token goes on through a call of \<open>Http.cancel\<close>.
\<close>

type_synonym network = "nat \<Rightarrow> req_config \<Rightarrow> raw_response settle"

fun abortable :: "cancel_token option \<Rightarrow> 'a settle \<Rightarrow> world \<Rightarrow> world \<times> 'a settle" where
  "abortable tok (CancelCalled p) w =
     (case (tok, cancel_reason w) of
        (Some SourceToken, Some msg) \<Rightarrow> (w, Settles 0 (Inl (Cancel msg)))
      | _ \<Rightarrow> abortable tok p (cancel w))"
| "abortable tok p w =
     (case (tok, cancel_reason w) of
        (Some SourceToken, Some msg) \<Rightarrow> (w, Settles 0 (Inl (Cancel msg)))
      | _ \<Rightarrow> (w, p))"

definition axios_request :: "network \<Rightarrow> req_config \<Rightarrow> nat \<Rightarrow> world \<Rightarrow> world \<times> raw_response settle" where
  "axios_request net config k w = abortable (cfg_cancelToken config) (net k config) w"

definition createResponse :: "raw_response \<Rightarrow> response" where
  "createResponse res = \<lparr>raw = res, times = 0\<rparr>"

text \<open>The closure \<open>run\<close> of \<open>Http.request\<close>: one attempt.\<close>

definition run_request :: "network \<Rightarrow> req_config \<Rightarrow> nat \<Rightarrow> world \<Rightarrow> world \<times> (err + response)" where
  "run_request net config k w =
     (case axios_request net config k (log (AxiosRequest k config) w) of
        (w1, p) \<Rightarrow>
          (w1, case pTimeout p (cfg_timeout config) of
                 Inl e \<Rightarrow> Inl e
               | Inr (t, res) \<Rightarrow> Inr ((createResponse res)\<lparr>times := t\<rparr>)))"

definition method_text :: "req_config \<Rightarrow> string" where
  "method_text config = (case cfg_method config of None \<Rightarrow> ''undefined'' | Some m \<Rightarrow> m)"

definition request_failed :: "req_config \<Rightarrow> err \<Rightarrow> nat \<Rightarrow> nat \<Rightarrow> world \<Rightarrow> world" where
  "request_failed config e attemptNumber retriesLeft w =
     log (LogAttemptFailed (method_text config) (cfg_url config) attemptNumber retriesLeft) w"

text \<open>The default parameter \<open>method: Method = "GET"\<close>.\<close>

definition default_method :: "Method option \<Rightarrow> Method" where
  "default_method method_arg = (case method_arg of None \<Rightarrow> ''GET'' | Some x \<Rightarrow> x)"

definition request ::
  "crawler \<Rightarrow> network \<Rightarrow> string \<Rightarrow> Method option \<Rightarrow> body option \<Rightarrow> headers option \<Rightarrow> world
     \<Rightarrow> world \<times> (err + response)" where
  "request cr net u method_arg b httpHeaders w =
     (let m = default_method method_arg in
      case resolve_all cr u m b w of
        (w4, Inl e) \<Rightarrow> (w4, Inl e)
      | (w4, Inr (rproxy, ruserAgent, rheaders, rauth)) \<Rightarrow>
          (case beforeRequest cr (build_config cr u m b httpHeaders rproxy ruserAgent rheaders rauth) of
             Inl e \<Rightarrow> (w4, Inl e)
           | Inr config \<Rightarrow>
               pRetry (run_request net config) (request_failed config) (opt_retry cr) w4))"

section \<open>Download pipeline (\<open>Http.downloadResource\<close>)\<close>

text \<open>
  One attempt (the function \<open>run\<close>) creates a promise \<open>p\<close> and registers three handlers:
  \<open>stream.catch\<close> for the source, and \<open>.once("error")\<close> and \<open>.once("finish")\<close> on the piped
  write stream. What the streams and p-timeout's timer do during the attempt is a list of
  events in the order in which they are delivered. A promise settles at most once: a later
  \<open>resolve\<close> or \<open>reject\<close> has no effect.
\<close>

datatype stream_event = SourceError err | DestError err | Finish | TimerFired

record attempt =
  error_var :: "err option"
  settled :: "(err + unit) option"
  caught :: bool
  error_once :: bool
  finish_once :: bool
  timed_out :: bool

definition new_attempt :: attempt where
  "new_attempt = \<lparr>error_var = None, settled = None, caught = False, error_once = False,
                   finish_once = False, timed_out = False\<rparr>"

definition reject :: "err \<Rightarrow> attempt \<Rightarrow> attempt" where
  "reject e a = (case settled a of None \<Rightarrow> a\<lparr>settled := Some (Inl e)\<rparr> | Some _ \<Rightarrow> a)"

definition resolve :: "attempt \<Rightarrow> attempt" where
  "resolve a = (case settled a of None \<Rightarrow> a\<lparr>settled := Some (Inr ())\<rparr> | Some _ \<Rightarrow> a)"

fun stream_step :: "attempt \<Rightarrow> stream_event \<Rightarrow> attempt" where
  "stream_step a (SourceError e) =
     (if caught a then a else reject e (a\<lparr>caught := True, error_var := Some e\<rparr>))"
| "stream_step a (DestError e) =
     (if error_once a then a
      else if error_var a = None then reject e (a\<lparr>error_once := True, error_var := Some e\<rparr>)
      else a\<lparr>error_once := True\<rparr>)"
| "stream_step a Finish =
     (if finish_once a then a
      else if error_var a = None then resolve (a\<lparr>finish_once := True\<rparr>)
      else a\<lparr>finish_once := True\<rparr>)"
| "stream_step a TimerFired =
     (if settled a = None then a\<lparr>timed_out := True\<rparr> else a)"

text \<open>\<open>pTimeout(p, timeout)\<close>: the timer wins if it fires while \<open>p\<close> is pending, and it does
  fire eventually if \<open>p\<close> never settles.\<close>

definition attempt_outcome :: "attempt \<Rightarrow> err + unit" where
  "attempt_outcome a =
     (if timed_out a then Inl TimeoutError
      else case settled a of None \<Rightarrow> Inl TimeoutError | Some r \<Rightarrow> r)"

type_synonym downloader = "nat \<Rightarrow> string \<Rightarrow> string \<Rightarrow> download_options option \<Rightarrow> stream_event list"

definition run_download ::
  "downloader \<Rightarrow> string \<Rightarrow> string \<Rightarrow> download_options option \<Rightarrow> nat \<Rightarrow> world \<Rightarrow> world \<times> (err + unit)" where
  "run_download dl u filepath options k w =
     (log (DownloadStream k) w,
      attempt_outcome (foldl stream_step new_attempt (dl k u filepath options)))"

definition download_failed :: "string \<Rightarrow> err \<Rightarrow> nat \<Rightarrow> nat \<Rightarrow> world \<Rightarrow> world" where
  "download_failed u e attemptNumber retriesLeft w =
     log (LogAttemptFailed ''download'' u attemptNumber retriesLeft) w"

text \<open>\<open>fs.ensureDir(path.dirname(filepath))\<close> is an oracle on the file path: it fails with
  an error or succeeds.\<close>

definition downloadResource ::
  "crawler \<Rightarrow> (string \<Rightarrow> err option) \<Rightarrow> downloader \<Rightarrow> string \<Rightarrow> string \<Rightarrow> download_options option
     \<Rightarrow> world \<Rightarrow> world \<times> (err + unit)" where
  "downloadResource cr ensureDir dl u filepath options w =
     (case ensureDir filepath of
        Some e \<Rightarrow> (w, Inl e)
      | None \<Rightarrow>
          (case pRetry (run_download dl u filepath options) (download_failed u) (opt_retry cr) w of
             (w1, Inl e) \<Rightarrow> (log (LogDownloadFailed u (message e)) w1, Inl e)
           | (w1, Inr v) \<Rightarrow> (w1, Inr v)))"

text \<open>\<open>$.download\<close>: the inline download of a response.\<close>

definition download ::
  "crawler \<Rightarrow> (string \<Rightarrow> err option) \<Rightarrow> downloader \<Rightarrow> response \<Rightarrow> string \<Rightarrow> string
     \<Rightarrow> download_options option \<Rightarrow> world \<Rightarrow> world \<times> (err + unit)" where
  "download cr ensureDir dl r u filepath options w =
     downloadResource cr ensureDir dl u filepath (Some (inherited_options r options)) w"

section \<open>Observations on a trace\<close>

fun is_attempt :: "event \<Rightarrow> bool" where
  "is_attempt (AxiosRequest k c) = True"
| "is_attempt _ = False"

fun is_notification :: "event \<Rightarrow> bool" where
  "is_notification (LogAttemptFailed m u k l) = True"
| "is_notification _ = False"

definition attempts :: "event list \<Rightarrow> nat" where
  "attempts tr = length (filter is_attempt tr)"

definition notifications :: "event list \<Rightarrow> nat" where
  "notifications tr = length (filter is_notification tr)"

text \<open>The part of a trace that lies before its last network attempt.\<close>

definition before_last_attempt :: "event list \<Rightarrow> event list" where
  "before_last_attempt tr = rev (tl (dropWhile (\<lambda>e. \<not> is_attempt e) (rev tr)))"

definition configured :: "crawler \<Rightarrow> resolver_kind \<Rightarrow> bool" where
  "configured cr k =
     (case k of
        Proxy \<Rightarrow> crawler_proxy cr \<noteq> None
      | UserAgent \<Rightarrow> crawler_userAgent cr \<noteq> None
      | Headers \<Rightarrow> crawler_headers cr \<noteq> None
      | Auth \<Rightarrow> crawler_auth cr \<noteq> None)"

text \<open>
  A rejection that every p-retry 4 retries: an \<open>Error\<close> that is no \<open>TypeError\<close>; and a
  promise under a timer that fails with such a rejection, with no call of \<open>Http.cancel\<close>
  meanwhile.
\<close>

fun ordinary :: "err \<Rightarrow> bool" where
  "ordinary (Error m) = True"
| "ordinary TimeoutError = True"
| "ordinary (TypeError m) = False"
| "ordinary (Cancel m) = False"

fun fails_ordinarily :: "'a settle \<Rightarrow> bool" where
  "fails_ordinarily TimerFirst = True"
| "fails_ordinarily (Settles t (Inl e)) = ordinary e"
| "fails_ordinarily (Settles t (Inr v)) = False"
| "fails_ordinarily (CancelCalled p) = False"

text \<open>What a failed attempt \<open>i\<close> of a request leaves in the trace.\<close>

definition attempt_events :: "req_config \<Rightarrow> nat \<Rightarrow> nat \<Rightarrow> event list" where
  "attempt_events config retries i =
     [AxiosRequest i config,
      LogAttemptFailed (method_text config) (cfg_url config) i (retries - (i - 1))]"

text \<open>What resolvers called and awaited one after the other leave in the trace.\<close>

definition awaited :: "resolver_kind list \<Rightarrow> event list" where
  "awaited ks = concat (map (\<lambda>k. [Invoked k, Settled k]) ks)"

definition attempt_event_of :: "req_config \<Rightarrow> event \<Rightarrow> bool" where
  "attempt_event_of config e = ((\<exists>i. e = AxiosRequest i config) \<or> is_notification e)"

text \<open>
  The spec's precedence order, in its own words: of a list of header sources in
  increasing precedence, the last one that has a key gives the key's value.
\<close>

fun precedence_merge :: "headers list \<Rightarrow> headers" where
  "precedence_merge [] = Map.empty"
| "precedence_merge (s # ss) = (\<lambda>k. case precedence_merge ss k of None \<Rightarrow> s k | Some v \<Rightarrow> Some v)"

section \<open>A concrete crawler\<close>

text \<open>
  A crawler with a proxy, a rotating user agent and a headers resolver, one retry, a
  network that is down, and a response whose request headers include \<open>Accept\<close>.
\<close>

definition idle :: world where
  "idle = \<lparr>active = True, queue = [], cancel_reason = None, trace = []\<rparr>"

definition rotating_agent :: "string resolver" where
  "rotating_agent n u m b = Inr (Some (if n = 0 then ''agent-A'' else ''agent-B''))"

definition fixed_proxy :: "proxy_config resolver" where
  "fixed_proxy n u m b = Inr (Some \<lparr>host = ''10.0.0.1'', port = 8080\<rparr>)"

definition extra_headers :: "headers resolver" where
  "extra_headers n u m b =
     Inr (Some [''X-Key'' \<mapsto> HStr ''resolver'', ''User-Agent'' \<mapsto> HStr ''from-headers''])"

definition example_crawler :: crawler where
  "example_crawler =
     \<lparr>opt_retry = Suc 0, opt_timeout = 5000,
      crawler_proxy = Some fixed_proxy, crawler_userAgent = Some rotating_agent,
      crawler_headers = Some extra_headers, crawler_auth = None,
      provider_defaultHeaders =
        Some [''X-Key'' \<mapsto> HStr ''provider'', ''Reference'' \<mapsto> HStr ''home''],
      provider_beforeRequest = None\<rparr>"

definition caller_headers :: headers where
  "caller_headers = [''X-Key'' \<mapsto> HStr ''caller'', ''Accept'' \<mapsto> HStr ''text/html'']"

definition net_down :: network where
  "net_down k config = Settles 3 (Inl (Error ''ECONNRESET''))"

text \<open>A network on which every attempt fails with a \<open>TypeError\<close>, and one on which the
  user calls \<open>Http.cancel\<close> during every attempt, which would otherwise time out.\<close>

definition net_type_error :: network where
  "net_type_error k config = Settles 3 (Inl (TypeError ''Invalid URL''))"

definition net_cancelled :: network where
  "net_cancelled k config = CancelCalled TimerFirst"

definition resolved :: world where
  "resolved =
     idle\<lparr>trace := [Invoked Proxy, Settled Proxy, Invoked UserAgent, Settled UserAgent,
                     Invoked Headers, Settled Headers]\<rparr>"

definition example_config :: req_config where
  "example_config =
     build_config example_crawler ''http://a/'' ''GET'' None (Some caller_headers)
       (Some \<lparr>host = ''10.0.0.1'', port = 8080\<rparr>) (Some ''agent-A'')
       (Some [''X-Key'' \<mapsto> HStr ''resolver'', ''User-Agent'' \<mapsto> HStr ''from-headers'']) None"

definition example_response :: response where
  "example_response =
     \<lparr>raw = \<lparr>res_config =
               \<lparr>cfg_url = ''http://a/page'', cfg_method = Some ''GET'',
                cfg_proxy = Some \<lparr>host = ''10.0.0.1'', port = 8080\<rparr>, cfg_timeout = 5000,
                cfg_data = None, cfg_auth = None,
                cfg_headers =
                  Some [''Accept'' \<mapsto> HStr ''text/html'', ''Reference'' \<mapsto> HStr ''http://a/''],
                cfg_cancelToken = Some SourceToken\<rparr>,
             res_data = ''<html></html>'', res_status = 200\<rparr>,
      times = 12\<rparr>"

definition example_descriptor :: url_customer where
  "example_descriptor =
     \<lparr>uc_url = ''http://a/search'', uc_method = Some ''POST'', uc_body = Some (Data ''q=1''),
      uc_headers = Some [''Reference'' \<mapsto> HStr ''elsewhere'', ''X-Key'' \<mapsto> HStr ''caller'']\<rparr>"

definition no_dir_error :: "string \<Rightarrow> err option" where
  "no_dir_error filepath = None"

definition stream_ok :: downloader where
  "stream_ok k u filepath options = [Finish]"

text \<open>Attempt 1 sees the destination fail first, every later attempt the source.\<close>

definition stream_both_fail :: downloader where
  "stream_both_fail k u filepath options =
     (if k = 1 then [DestError (Error ''EACCES''), SourceError (Error ''ECONNRESET'')]
      else [SourceError (Error ''ECONNRESET''), DestError (Error ''EACCES'')])"

section \<open>Traces of the pipelines\<close>

lemma trace_log [simp]: "trace (log ev w) = trace w @ [ev]"
  by (simp add: log_def)

lemma cancel_reason_log [simp]: "cancel_reason (log ev w) = cancel_reason w"
  by (simp add: log_def)

lemma queue_log [simp]: "queue (log ev w) = queue w"
  by (simp add: log_def)

lemma invocations_append [simp]:
  "invocations k (xs @ ys) = invocations k xs + invocations k ys"
  by (simp add: invocations_def)

lemma attempts_append [simp]: "attempts (xs @ ys) = attempts xs + attempts ys"
  by (simp add: attempts_def)

lemma notifications_append [simp]:
  "notifications (xs @ ys) = notifications xs + notifications ys"
  by (simp add: notifications_def)

subsection \<open>Resolution\<close>

lemma resolve_all_trace_ok:
  assumes "snd (resolve_all cr u m b w) = Inr v"
  shows "trace (fst (resolve_all cr u m b w)) =
           trace w @ awaited (filter (configured cr) [Proxy, UserAgent, Headers, Auth])"
  using assms
  by (cases "crawler_proxy cr"; cases "crawler_userAgent cr"; cases "crawler_headers cr";
      cases "crawler_auth cr")
     (simp_all add: resolve_all_def await_resolve_def awaited_def configured_def split: sum.splits)

lemma resolve_all_cancel_reason [simp]:
  "cancel_reason (fst (resolve_all cr u m b w)) = cancel_reason w"
  by (cases "crawler_proxy cr"; cases "crawler_userAgent cr"; cases "crawler_headers cr";
      cases "crawler_auth cr")
     (simp_all add: resolve_all_def await_resolve_def split: sum.splits)

lemma resolve_all_attempts [simp]:
  "attempts (trace (fst (resolve_all cr u m b w))) = attempts (trace w)"
  by (cases "crawler_proxy cr"; cases "crawler_userAgent cr"; cases "crawler_headers cr";
      cases "crawler_auth cr")
     (simp_all add: resolve_all_def await_resolve_def attempts_def split: sum.splits)

lemma resolve_all_invocations_ok:
  assumes "snd (resolve_all cr u m b w) = Inr v"
  shows "invocations k (trace (fst (resolve_all cr u m b w))) =
           invocations k (trace w) + (if configured cr k then 1 else 0)"
  unfolding resolve_all_trace_ok [OF assms]
  by (cases k) (simp_all add: awaited_def invocations_def)

subsection \<open>One attempt of a request\<close>

lemma trace_cancel [simp]: "trace (cancel w) = trace w"
  by (simp add: cancel_def split: option.splits)

lemma cancel_reason_cancel:
  "cancel_reason (cancel w) =
     Some (case cancel_reason w of None \<Rightarrow> ''Operation canceled by the user.'' | Some msg \<Rightarrow> msg)"
  by (simp add: cancel_def split: option.splits)

lemma abortable_trace [simp]: "trace (fst (abortable tok p w)) = trace w"
  by (induction tok p w rule: abortable.induct)
     (auto split: option.splits cancel_token.splits)

lemma abortable_tripped:
  assumes "cancel_reason w = Some msg"
  shows "abortable (Some SourceToken) p w = (w, Settles 0 (Inl (Cancel msg)))"
  using assms by (cases p) simp_all

lemma abortable_untouched:
  assumes "cancel_reason w = None" and "fails_ordinarily p"
  shows "abortable tok p w = (w, p)"
  using assms by (cases p; cases tok) (simp_all split: cancel_token.splits)

lemma trace_request_failed [simp]:
  "trace (request_failed config e k l w) =
     trace w @ [LogAttemptFailed (method_text config) (cfg_url config) k l]"
  by (simp add: request_failed_def)

lemma cancel_reason_request_failed [simp]:
  "cancel_reason (request_failed config e k l w) = cancel_reason w"
  by (simp add: request_failed_def)

lemma run_request_trace [simp]:
  "trace (fst (run_request net config k w)) = trace w @ [AxiosRequest k config]"
proof -
  obtain w1 p where a: "axios_request net config k (log (AxiosRequest k config) w) = (w1, p)"
    by (cases "axios_request net config k (log (AxiosRequest k config) w)")
  have "trace (fst (axios_request net config k (log (AxiosRequest k config) w))) =
          trace w @ [AxiosRequest k config]"
    by (simp add: axios_request_def)
  then show ?thesis
    by (simp add: run_request_def a)
qed

lemma ordinary_is_retried: "ordinary e \<Longrightarrow> exit_early e = None"
  by (cases e) (simp_all add: exit_early_def)

text \<open>An attempt that fails ordinarily while the token is not tripped.\<close>

lemma run_request_fails:
  assumes "cancel_reason w = None" and "fails_ordinarily (net k config)"
  shows "\<exists>e. ordinary e \<and> run_request net config k w = (log (AxiosRequest k config) w, Inl e)"
proof -
  have a: "axios_request net config k (log (AxiosRequest k config) w) =
             (log (AxiosRequest k config) w, net k config)"
    using assms by (simp add: axios_request_def abortable_untouched)
  show ?thesis
  proof (cases "net k config")
    case TimerFirst
    then show ?thesis using a by (simp add: run_request_def)
  next
    case (Settles t r)
    then show ?thesis using a assms(2) by (cases r) (simp_all add: run_request_def)
  next
    case (CancelCalled p)
    then show ?thesis using assms(2) by simp
  qed
qed

text \<open>An attempt with the token in its config, started after the token was tripped.\<close>

lemma run_request_tripped:
  assumes "cfg_cancelToken config = Some SourceToken" and "cancel_reason w = Some msg"
  shows "run_request net config k w = (log (AxiosRequest k config) w, Inl (Cancel msg))"
  using assms by (simp add: run_request_def axios_request_def abortable_tripped)

text \<open>An attempt with the token in its config, in flight when the user calls
  \<open>Http.cancel\<close>.\<close>

lemma run_request_cancelled_in_flight:
  assumes "cfg_cancelToken config = Some SourceToken" and "net k config = CancelCalled p"
      and "cancel_reason w = None"
  shows "run_request net config k w =
           (cancel (log (AxiosRequest k config) w), Inl (Cancel ''Operation canceled by the user.''))"
proof -
  let ?w = "log (AxiosRequest k config) w"
  have c: "cancel_reason (cancel ?w) = Some ''Operation canceled by the user.''"
    using assms(3) by (simp add: cancel_reason_cancel)
  have "abortable (Some SourceToken) (CancelCalled p) ?w = abortable (Some SourceToken) p (cancel ?w)"
    using assms(3) by simp
  then have "axios_request net config k ?w =
               (cancel ?w, Settles 0 (Inl (Cancel ''Operation canceled by the user.'')))"
    using assms(1,2) abortable_tripped [OF c, of p] by (simp add: axios_request_def)
  then show ?thesis by (simp add: run_request_def)
qed

subsection \<open>The retry loop of a request\<close>

text \<open>When every attempt fails ordinarily, the loop makes all its attempts, logging each
  failure.\<close>

lemma pRetry_loop_all_fail:
  assumes "cancel_reason w = None" and "\<forall>i. fails_ordinarily (net i config)"
  shows "trace (fst (pRetry_loop (run_request net config) (request_failed config) retries errs k left w)) =
           trace w @ concat (map (attempt_events config retries) [k..<Suc (k + left)])
       \<and> isl (snd (pRetry_loop (run_request net config) (request_failed config) retries errs k left w))"
  using assms
proof (induction left arbitrary: w errs k)
  case 0
  from run_request_fails [OF "0.prems"(1), of net k config] "0.prems"(2)
  obtain e where e: "ordinary e"
    "run_request net config k w = (log (AxiosRequest k config) w, Inl e)"
    by blast
  have ae: "attempt_events config retries k =
      [AxiosRequest k config,
       LogAttemptFailed (method_text config) (cfg_url config) k (retries - (k - 1))]"
    by (simp add: attempt_events_def)
  show ?case
    by (simp add: e(2) ordinary_is_retried [OF e(1)] ae)
next
  case (Suc left)
  from run_request_fails [OF Suc.prems(1), of net k config] Suc.prems(2)
  obtain e where e: "ordinary e"
    "run_request net config k w = (log (AxiosRequest k config) w, Inl e)"
    by blast
  let ?w' = "request_failed config e k (retries - (k - 1)) (log (AxiosRequest k config) w)"
  have "cancel_reason ?w' = None"
    using Suc.prems(1) by simp
  from Suc.IH [OF this Suc.prems(2), of "errs @ [e]" "Suc k"]
  have ih: "trace (fst (pRetry_loop (run_request net config) (request_failed config) retries
                     (errs @ [e]) (Suc k) left ?w')) =
              trace ?w' @ concat (map (attempt_events config retries) [Suc k..<Suc (Suc k + left)])
          \<and> isl (snd (pRetry_loop (run_request net config) (request_failed config) retries
                     (errs @ [e]) (Suc k) left ?w'))" .
  have u: "[k..<Suc (Suc (k + left))] = k # [Suc k..<Suc (Suc (k + left))]"
    by (simp add: upt_conv_Cons)
  have ae: "attempt_events config retries k =
      [AxiosRequest k config,
       LogAttemptFailed (method_text config) (cfg_url config) k (retries - (k - 1))]"
    by (simp add: attempt_events_def)
  show ?case using ih
    by (simp add: e(2) ordinary_is_retried [OF e(1)] u ae del: upt_Suc)
qed

text \<open>Whatever the network does, the loop starts with an attempt, and all it adds to the
  trace are attempts with the one config it was given and logger lines.\<close>

lemma pRetry_loop_request_events:
  "\<exists>evs. trace (fst (pRetry_loop (run_request net config) (request_failed config) retries errs k left w)) =
            trace w @ AxiosRequest k config # evs
         \<and> (\<forall>e \<in> set evs. attempt_event_of config e)"
proof (induction left arbitrary: w errs k)
  case 0
  obtain w1 r where rr: "run_request net config k w = (w1, r)"
    by (cases "run_request net config k w")
  then have t: "trace w1 = trace w @ [AxiosRequest k config]"
    using run_request_trace [of net config k w] by simp
  show ?case
  proof (cases r)
    case (Inl e)
    then show ?thesis
      using rr t by (cases "exit_early e") (simp_all add: attempt_event_of_def)
  next
    case (Inr v)
    then show ?thesis using rr t by simp
  qed
next
  case (Suc left)
  obtain w1 r where rr: "run_request net config k w = (w1, r)"
    by (cases "run_request net config k w")
  then have t: "trace w1 = trace w @ [AxiosRequest k config]"
    using run_request_trace [of net config k w] by simp
  show ?case
  proof (cases r)
    case (Inl e)
    show ?thesis
    proof (cases "exit_early e")
      case None
      let ?w' = "request_failed config e k (retries - (k - 1)) w1"
      from Suc.IH [of "errs @ [e]" "Suc k" ?w']
      obtain evs where
        evs: "trace (fst (pRetry_loop (run_request net config) (request_failed config) retries
                       (errs @ [e]) (Suc k) left ?w')) = trace ?w' @ AxiosRequest (Suc k) config # evs"
          "\<forall>e \<in> set evs. attempt_event_of config e"
        by blast
      let ?evs = "LogAttemptFailed (method_text config) (cfg_url config) k (retries - (k - 1))
                    # AxiosRequest (Suc k) config # evs"
      have "\<forall>e \<in> set ?evs. attempt_event_of config e"
        using evs(2) by (auto simp: attempt_event_of_def)
      moreover have "trace (fst (pRetry_loop (run_request net config) (request_failed config) retries
                       errs k (Suc left) w)) = trace w @ AxiosRequest k config # ?evs"
        using evs(1) t by (simp add: rr Inl None)
      ultimately show ?thesis by blast
    next
      case (Some e')
      then show ?thesis using rr t Inl by simp
    qed
  next
    case (Inr v)
    then show ?thesis using rr t by simp
  qed
qed

text \<open>An operation whose attempt \<open>k\<close> is cancelled, in flight or at its start, ends there:
  p-retry takes the \<open>Cancel\<close> for a non-error.\<close>

lemma pRetry_loop_cancelled:
  assumes "run_request net config k w = (w1, Inl (Cancel msg))"
  shows "pRetry_loop (run_request net config) (request_failed config) retries errs k left w =
           (w1, Inl (non_error_thrown (cancel_toString msg)))"
  using assms by (cases left) (simp_all add: exit_early_def)

lemma attempt_events_not_invoked:
  assumes "\<forall>e \<in> set evs. attempt_event_of config e"
  shows "invocations k evs = 0"
  using assms
  by (induction evs) (auto simp: invocations_def attempt_event_of_def elim: is_notification.elims)

lemma attempts_attempt_events:
  "attempts (concat (map (attempt_events config retries) xs)) = length xs"
  by (induction xs) (simp_all add: attempts_def attempt_events_def)

lemma notifications_attempt_events:
  "notifications (concat (map (attempt_events config retries) xs)) = length xs"
  by (induction xs) (simp_all add: notifications_def attempt_events_def)

lemma before_last_attempt_snoc:
  "before_last_attempt (tr @ attempt_events config retries i) = tr"
  by (simp add: before_last_attempt_def attempt_events_def)

subsection \<open>The three ways through \<open>request\<close>\<close>

lemma request_resolved:
  assumes "resolve_all cr u (default_method ma) b w = (w4, Inr (rp, rua, rh, ra))"
      and "beforeRequest cr (build_config cr u (default_method ma) b hh rp rua rh ra) = Inr config"
  shows "request cr net u ma b hh w =
           pRetry (run_request net config) (request_failed config) (opt_retry cr) w4"
  using assms by (simp add: request_def)

lemma request_unresolved:
  assumes "snd (resolve_all cr u (default_method ma) b w) = Inl e"
  shows "fst (request cr net u ma b hh w) = fst (resolve_all cr u (default_method ma) b w)"
  using assms by (cases "resolve_all cr u (default_method ma) b w") (simp add: request_def)

lemma request_hook_throws:
  assumes "resolve_all cr u (default_method ma) b w = (w4, Inr (rp, rua, rh, ra))"
      and "beforeRequest cr (build_config cr u (default_method ma) b hh rp rua rh ra) = Inl e"
  shows "request cr net u ma b hh w = (w4, Inl e)"
  using assms by (simp add: request_def)

lemma build_config_headers:
  "cfg_headers (build_config cr u m b httpHeaders rproxy ruserAgent rheaders rauth) =
     Some (precedence_merge
             [[''Reference'' \<mapsto> HStr u], spread (provider_defaultHeaders cr), spread httpHeaders,
              spread rheaders, userAgent_header ruserAgent])"
  by (auto simp: build_config_def map_add_def fun_eq_iff split: option.splits)

subsection \<open>One download attempt\<close>

text \<open>Once the promise of an attempt has settled before the timer, no later event of
  the streams or the timer changes the attempt's outcome.\<close>

lemma stream_step_settled:
  assumes "settled a = Some r" and "\<not> timed_out a"
  shows "settled (stream_step a ev) = Some r \<and> \<not> timed_out (stream_step a ev)"
  using assms by (cases ev) (simp_all add: reject_def resolve_def)

lemma foldl_stream_step_settled:
  assumes "settled a = Some r" and "\<not> timed_out a"
  shows "attempt_outcome (foldl stream_step a evs) = r"
  using assms
proof (induction evs arbitrary: a)
  case Nil
  then show ?case by (simp add: attempt_outcome_def)
next
  case (Cons ev evs)
  from stream_step_settled [OF Cons.prems, of ev] Cons.IH show ?case by simp
qed

lemma source_then_dest:
  "attempt_outcome (foldl stream_step new_attempt (SourceError e1 # DestError e2 # evs)) = Inl e1"
  by (simp add: foldl_stream_step_settled new_attempt_def reject_def)

lemma dest_then_source:
  "attempt_outcome (foldl stream_step new_attempt (DestError e1 # SourceError e2 # evs)) = Inl e1"
  by (simp add: foldl_stream_step_settled new_attempt_def reject_def)

lemma mainError_single: "mainError [e] = Some e"
  by (simp add: mainError_def)

text \<open>The spec's scenario C: with no retry, a download whose destination fails (with an
  error that p-retry retries) before its source logs one attempt and one final failure,
  with the destination's message.\<close>

lemma scenario_C:
  assumes "ensureDir filepath = None" and "opt_retry cr = 0"
      and "dl 1 u filepath options = DestError e1 # SourceError e2 # evs"
      and "exit_early e1 = None"
  shows "downloadResource cr ensureDir dl u filepath options w =
           (w\<lparr>trace := trace w @ [DownloadStream 1, LogAttemptFailed ''download'' u 1 0,
                                    LogDownloadFailed u (message e1)]\<rparr>, Inl e1)"
proof -
  have "run_download dl u filepath options 1 w = (log (DownloadStream 1) w, Inl e1)"
    using assms(3) dest_then_source [of e1 e2 evs]
    by (simp add: run_download_def del: foldl_Cons stream_step.simps)
  then show ?thesis
    using assms(1,2,4)
    by (simp add: downloadResource_def pRetry_def mainError_single download_failed_def log_def)
qed

text \<open>The result of a download does not depend on the world it runs in.\<close>

lemma pRetry_loop_download_result:
  "snd (pRetry_loop (run_download dl u filepath options) (download_failed u) retries errs k left w) =
   snd (pRetry_loop (run_download dl u filepath options) (download_failed u) retries errs k left w')"
proof (induction left arbitrary: w w' errs k)
  case 0
  have rd: "\<And>v. run_download dl u filepath options k v =
      (log (DownloadStream k) v,
       attempt_outcome (foldl stream_step new_attempt (dl k u filepath options)))"
    by (simp add: run_download_def)
  show ?case by (simp add: rd split: sum.splits option.splits)
next
  case (Suc left)
  have rd: "\<And>v. run_download dl u filepath options k v =
      (log (DownloadStream k) v,
       attempt_outcome (foldl stream_step new_attempt (dl k u filepath options)))"
    by (simp add: run_download_def)
  show ?case
  proof (cases "attempt_outcome (foldl stream_step new_attempt (dl k u filepath options))")
    case (Inl e)
    show ?thesis
      using Suc.IH [of "errs @ [e]" "Suc k"
          "download_failed u e k (retries - (k - 1)) (log (DownloadStream k) w)"
          "download_failed u e k (retries - (k - 1)) (log (DownloadStream k) w')"]
      by (cases "exit_early e") (simp_all add: rd Inl)
  next
    case (Inr v)
    then show ?thesis by (simp add: rd)
  qed
qed

lemma downloadResource_result_any_world:
  "snd (downloadResource cr ensureDir dl u filepath options w) =
   snd (downloadResource cr ensureDir dl u filepath options w')"
proof (cases "ensureDir filepath")
  case None
  have "snd (pRetry (run_download dl u filepath options) (download_failed u) (opt_retry cr) w) =
        snd (pRetry (run_download dl u filepath options) (download_failed u) (opt_retry cr) w')"
    unfolding pRetry_def by (rule pRetry_loop_download_result)
  then show ?thesis
    using None by (auto simp: downloadResource_def split: prod.splits sum.splits)
next
  case (Some e)
  then show ?thesis by (simp add: downloadResource_def)
qed

subsection \<open>The concrete crawler\<close>

lemma decimal_8080: "decimal 8080 = ''8080''"
  by (simp add: decimal.simps digit_char_def)

lemma example_crawler_fields [simp]:
  "opt_retry example_crawler = Suc 0"
  "opt_timeout example_crawler = 5000"
  "crawler_proxy example_crawler = Some fixed_proxy"
  "crawler_userAgent example_crawler = Some rotating_agent"
  "crawler_headers example_crawler = Some extra_headers"
  "crawler_auth example_crawler = None"
  "provider_defaultHeaders example_crawler =
     Some [''X-Key'' \<mapsto> HStr ''provider'', ''Reference'' \<mapsto> HStr ''home'']"
  "provider_beforeRequest example_crawler = None"
  by (simp_all add: example_crawler_def)

lemma idle_fields [simp]:
  "active idle" "queue idle = []" "cancel_reason idle = None" "trace idle = []"
  by (simp_all add: idle_def)

lemma example_config_fields [simp]:
  "method_text example_config = ''GET''"
  "cfg_url example_config = ''http://a/''"
  "cfg_cancelToken example_config = Some SourceToken"
  by (simp_all add: example_config_def build_config_def method_text_def)

lemma resolve_example:
  "resolve_all example_crawler ''http://a/'' ''GET'' None idle =
     (resolved,
      Inr (Some \<lparr>host = ''10.0.0.1'', port = 8080\<rparr>, Some ''agent-A'',
           Some [''X-Key'' \<mapsto> HStr ''resolver'', ''User-Agent'' \<mapsto> HStr ''from-headers''], None))"
  by (simp add: resolve_all_def await_resolve_def log_def resolved_def
      invocations_def fixed_proxy_def rotating_agent_def extra_headers_def)

lemma hook_example: "beforeRequest example_crawler example_config = Inr example_config"
  by (simp add: beforeRequest_def)

lemma net_down_fails: "\<forall>i. fails_ordinarily (net_down i example_config)"
  by (simp add: net_down_def)

lemma request_example:
  "request example_crawler net ''http://a/'' None None (Some caller_headers) idle =
     pRetry (run_request net example_config) (request_failed example_config) (Suc 0) resolved"
proof -
  have m: "default_method None = ''GET''" by (simp add: default_method_def)
  show ?thesis
    using request_resolved [of example_crawler "''http://a/''" None None idle resolved _ _ _ _
        "Some caller_headers" example_config net] resolve_example hook_example
    by (simp add: m example_config_def)
qed

lemma request_example_trace:
  "trace (fst (request example_crawler net_down ''http://a/'' None None (Some caller_headers) idle)) =
     [Invoked Proxy, Settled Proxy, Invoked UserAgent, Settled UserAgent, Invoked Headers,
      Settled Headers,
      AxiosRequest 1 example_config, LogAttemptFailed ''GET'' ''http://a/'' 1 1,
      AxiosRequest 2 example_config, LogAttemptFailed ''GET'' ''http://a/'' 2 0]"
proof -
  have c: "cancel_reason resolved = None" by (simp add: resolved_def)
  have u: "[1..<Suc (1 + Suc 0)] = [1, 2]" by (simp add: upt_rec)
  from pRetry_loop_all_fail
         [where w = resolved and net = net_down and config = example_config
            and retries = "Suc 0" and errs = "[]" and k = 1 and left = "Suc 0",
          OF c net_down_fails]
  have "trace (fst (pRetry (run_request net_down example_config) (request_failed example_config)
                     (Suc 0) resolved)) =
          trace resolved @ concat (map (attempt_events example_config (Suc 0)) [1, 2])"
    unfolding pRetry_def u by blast
  then show ?thesis
    by (simp add: request_example attempt_events_def resolved_def)
qed

text \<open>The same request on the network of \<open>TypeError\<close>s, and with the user cancelling
  during the first attempt.\<close>

lemma request_example_type_error:
  "request example_crawler net_type_error ''http://a/'' None None (Some caller_headers) idle =
     (log (AxiosRequest 1 example_config) resolved, Inl (TypeError ''Invalid URL''))"
proof -
  have c: "cancel_reason (log (AxiosRequest 1 example_config) resolved) = None"
    by (simp add: resolved_def)
  have "run_request net_type_error example_config 1 resolved =
          (log (AxiosRequest 1 example_config) resolved, Inl (TypeError ''Invalid URL''))"
    using c by (simp add: run_request_def axios_request_def net_type_error_def)
  then show ?thesis
    by (simp add: request_example pRetry_def exit_early_def isNetworkError_def)
qed

lemma request_example_cancelled:
  "request example_crawler net_cancelled ''http://a/'' None None (Some caller_headers) idle =
     (cancel (log (AxiosRequest 1 example_config) resolved),
      Inl (non_error_thrown ''Cancel: Operation canceled by the user.''))"
proof -
  have c: "cancel_reason resolved = None" by (simp add: resolved_def)
  have n: "net_cancelled 1 example_config = CancelCalled TimerFirst"
    by (simp add: net_cancelled_def)
  have t: "cfg_cancelToken example_config = Some SourceToken" by simp
  note rr = run_request_cancelled_in_flight
              [where net = net_cancelled and k = 1 and config = example_config
                 and p = TimerFirst and w = resolved, OF t n c]
  from pRetry_loop_cancelled [OF rr, of "Suc 0" "[]" "Suc 0"]
  show ?thesis
    by (simp add: request_example pRetry_def cancel_toString_def)
qed

section \<open>Task injection while the crawler is inactive\<close>

lemma follow_inactive_noop: "\<not> active w \<Longrightarrow> follow r nextUrl w = w"
  by (simp add: follow_def)

text \<open>
  C1 claims that \<open>follow\<close>, \<open>retry\<close> and \<open>downloadInQueue\<close> all leave the queue alone while
  \<open>active\<close> is false. Only \<open>follow\<close> tests the flag (\<open>follow_inactive_noop\<close>). \<open>retry\<close> and
  \<open>downloadInQueue\<close> never read it: called on an inactive crawler, each appends its task to
  the queue all the same.
\<close>

theorem retry_and_downloadInQueue_ignore_active:
  "queue (retry r (w\<lparr>active := False\<rparr>)) =
     queue w @ [Task ''request''
                  (Some (case cfg_method (res_config (raw r)) of
                           None \<Rightarrow> ''GET'' | Some s \<Rightarrow> if s = [] then ''GET'' else s))
                  (cfg_url (res_config (raw r))) (cfg_data (res_config (raw r)))
                  (cfg_headers (res_config (raw r)))]
   \<and> queue (downloadInQueue r u filepath options (w\<lparr>active := False\<rparr>)) =
     queue w @ [Task ''download'' (Some ''GET'') u
                  (Some (DownloadBody filepath (Some (inherited_options r options)))) None]"
  by (simp add: retry_def downloadInQueue_def http_download_def scheduler_push_def Let_def)

section \<open>Resolvers and attempts\<close>

text \<open>
  C2 claims that every attempt of a request calls each configured resolver afresh, so
  that \<open>n\<close> attempts mean \<open>n\<close> calls. The resolvers are called before \<open>pRetry\<close>, outside the
  closure \<open>run\<close> that is retried: on the concrete crawler, whose network is down and which
  has one retry, the request makes two attempts and calls the user-agent resolver once.
\<close>

theorem resolvers_not_called_per_attempt:
  "attempts (trace (fst (request example_crawler net_down ''http://a/'' None None
                           (Some caller_headers) idle))) = 2
   \<and> invocations UserAgent
        (trace (fst (request example_crawler net_down ''http://a/'' None None
                       (Some caller_headers) idle))) = 1"
  by (simp add: request_example_trace attempts_def invocations_def)

text \<open>
  C2 as amended: in an execution of \<open>request\<close> that makes at least one attempt, each
  configured resolver is called exactly once (and an unconfigured one not at all), and all
  these calls have settled before the first attempt; the config of the first attempt is the
  one built (and passed through the hook) from the values those calls resolved to, and
  whatever follows the first attempt is further attempts with that same config and logger
  lines, with no resolver call among them.
\<close>

theorem resolvers_called_once_per_execution:
  assumes "attempts (trace (fst (request cr net u ma b hh w))) = attempts (trace w) + n"
      and "0 < n"
  shows "\<exists>w4 rp rua rh rau config evs.
           resolve_all cr u (default_method ma) b w = (w4, Inr (rp, rua, rh, rau))
         \<and> trace w4 =
             trace w @ concat (map (\<lambda>k. [Invoked k, Settled k])
                                 (filter (configured cr) [Proxy, UserAgent, Headers, Auth]))
         \<and> beforeRequest cr (build_config cr u (default_method ma) b hh rp rua rh rau) = Inr config
         \<and> trace (fst (request cr net u ma b hh w)) = trace w4 @ AxiosRequest 1 config # evs
         \<and> (\<forall>e \<in> set evs. (\<exists>i. e = AxiosRequest i config) \<or> is_notification e)
         \<and> (\<forall>k. invocations k (trace (fst (request cr net u ma b hh w))) =
                   invocations k (trace w) + (if configured cr k then 1 else 0))"
proof -
  let ?m = "default_method ma"
  obtain w4 res where ra: "resolve_all cr u ?m b w = (w4, res)"
    by (cases "resolve_all cr u ?m b w")
  have a4: "attempts (trace w4) = attempts (trace w)"
    using resolve_all_attempts [of cr u ?m b w] ra by simp
  have "\<exists>v. res = Inr v"
  proof (cases res)
    case (Inl e)
    then have "fst (request cr net u ma b hh w) = w4"
      using request_unresolved [of cr u ma b w e net hh] ra by simp
    with a4 assms show ?thesis by simp
  qed blast
  then obtain rp rua rh rau where res: "res = Inr (rp, rua, rh, rau)"
    by (metis prod_cases4)
  note ra' = ra [unfolded res]
  have "\<exists>config. beforeRequest cr (build_config cr u ?m b hh rp rua rh rau) = Inr config"
  proof (cases "beforeRequest cr (build_config cr u ?m b hh rp rua rh rau)")
    case (Inl e)
    from request_hook_throws [OF ra' Inl] a4 assms show ?thesis by simp
  qed blast
  then obtain config where
    h: "beforeRequest cr (build_config cr u ?m b hh rp rua rh rau) = Inr config"
    by blast
  from pRetry_loop_request_events [of net config "opt_retry cr" "[]" 1 "opt_retry cr" w4]
  obtain evs where
    evs: "trace (fst (request cr net u ma b hh w)) = trace w4 @ AxiosRequest 1 config # evs"
         "\<forall>e \<in> set evs. attempt_event_of config e"
    by (auto simp: request_resolved [OF ra' h] pRetry_def)
  have shape: "\<forall>e \<in> set evs. (\<exists>i. e = AxiosRequest i config) \<or> is_notification e"
    using evs(2) by (simp add: attempt_event_of_def)
  have t4: "trace w4 =
             trace w @ concat (map (\<lambda>k. [Invoked k, Settled k])
                                 (filter (configured cr) [Proxy, UserAgent, Headers, Auth]))"
    using resolve_all_trace_ok [of cr u ?m b w "(rp, rua, rh, rau)"] ra'
    by (simp add: awaited_def)
  have once: "invocations k (trace (fst (request cr net u ma b hh w))) =
           invocations k (trace w) + (if configured cr k then 1 else 0)" for k
  proof -
    have "invocations k (trace w4) = invocations k (trace w) + (if configured cr k then 1 else 0)"
      using resolve_all_invocations_ok [of cr u ?m b w "(rp, rua, rh, rau)" k] ra' by simp
    then show ?thesis
      using evs(1) attempt_events_not_invoked [OF evs(2), of k]
      by (simp add: invocations_def)
  qed
  from ra' t4 h evs(1) shape once show ?thesis by blast
qed

text \<open>The concrete crawler: the three configured resolvers are called, each once and in
  turn, then come two attempts, both with the config that carries the first agent; the
  auth resolver, which is not configured, is not called.\<close>

theorem resolvers_called_once_per_execution_witness:
  "attempts (trace (fst (request example_crawler net_down ''http://a/'' None None
                           (Some caller_headers) idle))) = attempts (trace idle) + 2
   \<and> invocations UserAgent
        (trace (fst (request example_crawler net_down ''http://a/'' None None
                       (Some caller_headers) idle))) = 1
   \<and> invocations Auth
        (trace (fst (request example_crawler net_down ''http://a/'' None None
                       (Some caller_headers) idle))) = 0
   \<and> take 7 (trace (fst (request example_crawler net_down ''http://a/'' None None
                            (Some caller_headers) idle))) =
       [Invoked Proxy, Settled Proxy, Invoked UserAgent, Settled UserAgent, Invoked Headers,
        Settled Headers, AxiosRequest 1 example_config]
   \<and> filter is_attempt
        (trace (fst (request example_crawler net_down ''http://a/'' None None
                       (Some caller_headers) idle))) =
       [AxiosRequest 1 example_config, AxiosRequest 2 example_config]"
proof -
  have a: "attempts (trace (fst (request example_crawler net_down ''http://a/'' None None
                           (Some caller_headers) idle))) = attempts (trace idle) + 2"
    by (simp add: request_example_trace attempts_def)
  have p: "(0::nat) < 2" by simp
  from resolvers_called_once_per_execution [OF a p]
  have "\<forall>k. invocations k (trace (fst (request example_crawler net_down ''http://a/'' None None
                                          (Some caller_headers) idle))) =
              invocations k (trace idle) + (if configured example_crawler k then 1 else 0)"
    by blast
  then have "invocations UserAgent (trace (fst (request example_crawler net_down ''http://a/'' None None
                                          (Some caller_headers) idle))) = 1"
    and "invocations Auth (trace (fst (request example_crawler net_down ''http://a/'' None None
                                          (Some caller_headers) idle))) = 0"
    by (simp_all add: configured_def invocations_def)
  with a show ?thesis
    by (simp add: request_example_trace)
qed

text \<open>
  C3 claims \<open>r + 1\<close> attempts and \<open>r\<close> notifications for every request whose network
  attempt always fails. p-retry does not retry every failure: on the concrete crawler,
  which has one retry, a network that fails every attempt with a \<open>TypeError\<close> is tried
  once, and so is a network that is down when the cancel token has been tripped (every
  attempt would reject with axios's \<open>Cancel\<close>, which is no \<open>Error\<close>); neither failure is
  logged.
\<close>

theorem unretried_failures:
  "opt_retry example_crawler = Suc 0
   \<and> net_type_error 1 example_config = Settles 3 (Inl (TypeError ''Invalid URL''))
   \<and> net_type_error 2 example_config = Settles 3 (Inl (TypeError ''Invalid URL''))
   \<and> trace (fst (request example_crawler net_type_error ''http://a/'' None None
                    (Some caller_headers) idle)) =
       trace resolved @ [AxiosRequest 1 example_config]
   \<and> snd (request example_crawler net_type_error ''http://a/'' None None
             (Some caller_headers) idle) = Inl (TypeError ''Invalid URL'')
   \<and> run_request net_down example_config 1 (cancel resolved) =
       (log (AxiosRequest 1 example_config) (cancel resolved),
        Inl (Cancel ''Operation canceled by the user.''))
   \<and> run_request net_down example_config 2 (cancel resolved) =
       (log (AxiosRequest 2 example_config) (cancel resolved),
        Inl (Cancel ''Operation canceled by the user.''))
   \<and> trace (fst (pRetry (run_request net_down example_config) (request_failed example_config)
                   (Suc 0) (cancel resolved))) =
       trace resolved @ [AxiosRequest 1 example_config]
   \<and> isl (snd (pRetry (run_request net_down example_config) (request_failed example_config)
                  (Suc 0) (cancel resolved)))"
proof -
  have c: "cancel_reason (cancel resolved) = Some ''Operation canceled by the user.''"
    by (simp add: cancel_reason_cancel resolved_def)
  have t: "cfg_cancelToken example_config = Some SourceToken" by simp
  note r1 = run_request_tripped [OF t c, of net_down 1]
  note r2 = run_request_tripped [OF t c, of net_down 2]
  from pRetry_loop_cancelled [OF r1, of "Suc 0" "[]" "Suc 0"]
  have l: "pRetry (run_request net_down example_config) (request_failed example_config)
             (Suc 0) (cancel resolved) =
           (log (AxiosRequest 1 example_config) (cancel resolved),
            Inl (non_error_thrown (cancel_toString ''Operation canceled by the user.'')))"
    by (simp add: pRetry_def)
  show ?thesis
    by (simp add: request_example_type_error net_type_error_def r1 [unfolded One_nat_def] r2 l)
qed

text \<open>
  C3 as amended: a request with retry budget \<open>r\<close> whose resolvers and hook succeed, whose
  cancel token is not tripped, and whose every network attempt fails with an error that is
  an \<open>Error\<close> but no \<open>TypeError\<close>, or times out, makes exactly \<open>r + 1\<close> attempts; exactly \<open>r\<close>
  failure notifications have been logged when the last attempt starts (each of them
  followed by a retry); the last attempt's failure is logged too, with no retry left,
  which makes \<open>r + 1\<close> lines in all; and the execution ends rejected.
\<close>

theorem always_failing_request:
  assumes "resolve_all cr u (default_method ma) b w = (w4, Inr (rp, rua, rh, rau))"
      and "beforeRequest cr (build_config cr u (default_method ma) b hh rp rua rh rau) = Inr config"
      and "cancel_reason w = None"
      and "\<forall>i. fails_ordinarily (net i config)"
  shows "\<exists>tr. trace (fst (request cr net u ma b hh w)) = trace w4 @ tr
            \<and> tr = concat (map (attempt_events config (opt_retry cr)) [1..<opt_retry cr + 2])
            \<and> attempts tr = opt_retry cr + 1
            \<and> notifications (before_last_attempt tr) = opt_retry cr
            \<and> notifications tr = opt_retry cr + 1
            \<and> isl (snd (request cr net u ma b hh w))"
proof -
  let ?r = "opt_retry cr"
  let ?tr = "concat (map (attempt_events config ?r) [1..<?r + 2])"
  have c: "cancel_reason w4 = None"
    using resolve_all_cancel_reason [of cr u "default_method ma" b w] assms(1,3) by simp
  from pRetry_loop_all_fail
         [where w = w4 and net = net and config = config and retries = ?r and errs = "[]"
            and k = 1 and left = ?r, OF c assms(4)]
  have t: "trace (fst (request cr net u ma b hh w)) = trace w4 @ ?tr"
    and f: "isl (snd (request cr net u ma b hh w))"
    by (simp_all add: request_resolved [OF assms(1,2)] pRetry_def)
  have s: "[1..<?r + 2] = [1..<?r + 1] @ [?r + 1]" by simp
  have "before_last_attempt ?tr = concat (map (attempt_events config ?r) [1..<?r + 1])"
    unfolding s by (simp add: before_last_attempt_snoc del: upt_Suc)
  then have b: "notifications (before_last_attempt ?tr) = ?r"
    by (simp add: notifications_attempt_events del: upt_Suc)
  have "attempts ?tr = ?r + 1" "notifications ?tr = ?r + 1"
    by (simp_all add: attempts_attempt_events notifications_attempt_events del: upt_Suc)
  with t f b show ?thesis by blast
qed

text \<open>The concrete crawler has one retry and a network that is down with an ordinary
  error: two attempts, one notification before the second attempt, two in all, and a
  rejection.\<close>

theorem always_failing_request_witness:
  "\<exists>tr. trace (fst (request example_crawler net_down ''http://a/'' None None
                       (Some caller_headers) idle)) = trace resolved @ tr
      \<and> attempts tr = 2
      \<and> notifications (before_last_attempt tr) = 1
      \<and> notifications tr = 2
      \<and> isl (snd (request example_crawler net_down ''http://a/'' None None
                     (Some caller_headers) idle))"
proof -
  have h1: "resolve_all example_crawler ''http://a/'' (default_method None) None idle =
      (resolved,
       Inr (Some \<lparr>host = ''10.0.0.1'', port = 8080\<rparr>, Some ''agent-A'',
            Some [''X-Key'' \<mapsto> HStr ''resolver'', ''User-Agent'' \<mapsto> HStr ''from-headers''], None))"
    by (simp add: default_method_def resolve_example)
  have h2: "beforeRequest example_crawler
      (build_config example_crawler ''http://a/'' (default_method None) None (Some caller_headers)
         (Some \<lparr>host = ''10.0.0.1'', port = 8080\<rparr>) (Some ''agent-A'')
         (Some [''X-Key'' \<mapsto> HStr ''resolver'', ''User-Agent'' \<mapsto> HStr ''from-headers'']) None) =
      Inr example_config"
    using hook_example by (simp add: default_method_def example_config_def)
  have h3: "cancel_reason idle = None" by simp
  from always_failing_request
         [where net = net_down and config = example_config, OF h1 h2 h3 net_down_fails]
  show ?thesis by simp
qed

text \<open>
  C9 claims that the four resolver calls of a request overlap. Each element of the array
  handed to \<open>Promise.all\<close> is itself an \<open>await\<close>, so each resolver is called only after the
  one before it has settled: when resolution succeeds, the trace is the configured
  resolvers in the order proxy, user agent, headers, auth, each called and settled before
  the next is called.
\<close>

theorem resolvers_awaited_one_after_another:
  assumes "snd (resolve_all cr u m b w) = Inr v"
  shows "trace (fst (resolve_all cr u m b w)) =
           trace w @ concat (map (\<lambda>k. [Invoked k, Settled k])
                               (filter (configured cr) [Proxy, UserAgent, Headers, Auth]))"
  using resolve_all_trace_ok [OF assms] by (simp add: awaited_def)

text \<open>On the concrete crawler the proxy resolver has settled before the user-agent
  resolver is called, and that one before the headers resolver.\<close>

theorem resolvers_awaited_one_after_another_witness:
  "snd (resolve_all example_crawler ''http://a/'' ''GET'' None idle) =
     Inr (Some \<lparr>host = ''10.0.0.1'', port = 8080\<rparr>, Some ''agent-A'',
          Some [''X-Key'' \<mapsto> HStr ''resolver'', ''User-Agent'' \<mapsto> HStr ''from-headers''], None)
   \<and> trace (fst (resolve_all example_crawler ''http://a/'' ''GET'' None idle)) =
     [Invoked Proxy, Settled Proxy, Invoked UserAgent, Settled UserAgent,
      Invoked Headers, Settled Headers]"
proof -
  have h: "snd (resolve_all example_crawler ''http://a/'' ''GET'' None idle) =
     Inr (Some \<lparr>host = ''10.0.0.1'', port = 8080\<rparr>, Some ''agent-A'',
          Some [''X-Key'' \<mapsto> HStr ''resolver'', ''User-Agent'' \<mapsto> HStr ''from-headers''], None)"
    by (simp add: resolve_example)
  from resolvers_awaited_one_after_another [OF h] h
  show ?thesis by (simp add: configured_def)
qed

section \<open>Cancellation\<close>

text \<open>
  C4 claims that tripping the cancel token makes every operation in flight, downloads
  included, reject with a cancellation-specific failure. \<open>downloadResource\<close> hands the token
  to nothing: a download whose stream finishes, run in a world whose token has been
  tripped, is fulfilled. And a request that is in flight when the user calls \<open>Http.cancel\<close>
  does end, but what it rejects with is p-retry's \<open>TypeError\<close> about a non-error, not the
  cancellation.
\<close>

theorem cancel_misses_downloads_and_is_wrapped:
  "cancel_reason (cancel idle) = Some ''Operation canceled by the user.''
   \<and> snd (downloadResource example_crawler no_dir_error stream_ok ''http://a/p.png'' ''/tmp/p.png''
            None (cancel idle)) = Inr ()
   \<and> net_cancelled 1 example_config = CancelCalled TimerFirst
   \<and> snd (request example_crawler net_cancelled ''http://a/'' None None (Some caller_headers) idle) =
       Inl (TypeError (''Non-error was thrown: '' @ [dquote]
                         @ ''Cancel: Operation canceled by the user.'' @ [dquote]
                         @ ''. You should only throw errors.''))"
  by (simp add: cancel_def downloadResource_def no_dir_error_def pRetry_def run_download_def
      stream_ok_def new_attempt_def resolve_def attempt_outcome_def net_cancelled_def
      request_example_cancelled non_error_thrown_def)

text \<open>
  C4 as amended. An operation of Request kind is in flight when its retry loop is at some
  attempt \<open>k\<close>, after any number of failures, and that attempt is pending. If the user
  calls \<open>Http.cancel\<close> then, the token not having been tripped before, and the attempt's
  config carries the token (as every config built by \<open>request\<close> does), the attempt rejects
  with axios's cancellation carrying the token's reason, and the operation ends there: no
  failure is logged, no further attempt is made, and the operation is rejected. An attempt
  that starts after the token was tripped rejects with the cancellation at once. The result
  of a download is the same whether or not the token has been tripped.
\<close>

theorem cancel_aborts_requests_only:
  assumes "cfg_cancelToken config = Some SourceToken"
      and "net k config = CancelCalled p"
      and "cancel_reason w = None"
  shows "snd (run_request net config k w) = Inl (Cancel ''Operation canceled by the user.'')
       \<and> trace (fst (pRetry_loop (run_request net config) (request_failed config) retries errs k
                        left w)) = trace w @ [AxiosRequest k config]
       \<and> cancel_reason (fst (pRetry_loop (run_request net config) (request_failed config) retries
                                errs k left w)) = Some ''Operation canceled by the user.''
       \<and> isl (snd (pRetry_loop (run_request net config) (request_failed config) retries errs k
                      left w))
       \<and> (\<exists>msg. cancel_reason (cancel w') = Some msg
             \<and> run_request net' config k' (cancel w') =
                 (log (AxiosRequest k' config) (cancel w'), Inl (Cancel msg)))
       \<and> cfg_cancelToken (build_config cr u m b hh rp rua rh rau) = Some SourceToken
       \<and> snd (downloadResource cr ensureDir dl u' filepath options (cancel w)) =
           snd (downloadResource cr ensureDir dl u' filepath options w)"
proof -
  note rr = run_request_cancelled_in_flight
              [where net = net and k = k and config = config and p = p and w = w, OF assms]
  note loop = pRetry_loop_cancelled [OF rr, of retries errs left]
  have c: "cancel_reason (cancel (log (AxiosRequest k config) w)) =
             Some ''Operation canceled by the user.''"
    using assms(3) by (simp add: cancel_reason_cancel)
  obtain msg where m: "cancel_reason (cancel w') = Some msg"
    by (simp add: cancel_reason_cancel)
  from run_request_tripped [OF assms(1) m, of net' k'] m
  have started: "\<exists>msg. cancel_reason (cancel w') = Some msg
             \<and> run_request net' config k' (cancel w') =
                 (log (AxiosRequest k' config) (cancel w'), Inl (Cancel msg))"
    by blast
  have token: "cfg_cancelToken (build_config cr u m b hh rp rua rh rau) = Some SourceToken"
    by (simp add: build_config_def)
  have dl: "snd (downloadResource cr ensureDir dl u' filepath options (cancel w)) =
           snd (downloadResource cr ensureDir dl u' filepath options w)"
    by (rule downloadResource_result_any_world)
  from rr loop c started token dl show ?thesis by simp
qed

text \<open>The concrete request, cancelled during its first attempt, and a download under the
  tripped token.\<close>

theorem cancel_aborts_requests_only_witness:
  "cfg_cancelToken example_config = Some SourceToken
   \<and> net_cancelled 1 example_config = CancelCalled TimerFirst
   \<and> cancel_reason resolved = None
   \<and> snd (run_request net_cancelled example_config 1 resolved) =
       Inl (Cancel ''Operation canceled by the user.'')
   \<and> trace (fst (pRetry_loop (run_request net_cancelled example_config)
                    (request_failed example_config) (Suc 0) [] 1 (Suc 0) resolved)) =
       trace resolved @ [AxiosRequest 1 example_config]
   \<and> isl (snd (pRetry_loop (run_request net_cancelled example_config)
                  (request_failed example_config) (Suc 0) [] 1 (Suc 0) resolved))
   \<and> snd (downloadResource example_crawler no_dir_error stream_ok ''http://a/p.png''
            ''/tmp/p.png'' None (cancel resolved)) =
     snd (downloadResource example_crawler no_dir_error stream_ok ''http://a/p.png''
            ''/tmp/p.png'' None resolved)"
proof -
  have h1: "cfg_cancelToken example_config = Some SourceToken" by simp
  have h2: "net_cancelled 1 example_config = CancelCalled TimerFirst"
    by (simp add: net_cancelled_def)
  have h3: "cancel_reason resolved = None" by (simp add: resolved_def)
  from cancel_aborts_requests_only
         [where config = example_config and net = net_cancelled and k = 1 and p = TimerFirst
            and w = resolved and retries = "Suc 0" and errs = "[]" and left = "Suc 0"
            and cr = example_crawler and ensureDir = no_dir_error and dl = stream_ok
            and u' = "''http://a/p.png''" and filepath = "''/tmp/p.png''" and options = None,
          OF h1 h2 h3] h1 h2 h3
  show ?thesis by blast
qed

section \<open>Errors of the two streams of a download\<close>

text \<open>
  C5: in a download attempt whose source stream and destination stream both emit an
  error, whichever comes first, the attempt is rejected once, with the error that came
  first; the later error, and whatever else the streams or the timer do afterwards, changes
  nothing.
\<close>

theorem first_stream_error_rejects_attempt:
  assumes "dl k u filepath options = SourceError e1 # DestError e2 # evs
         \<or> dl k u filepath options = DestError e1 # SourceError e2 # evs"
  shows "run_download dl u filepath options k w = (log (DownloadStream k) w, Inl e1)"
  using assms source_then_dest [of e1 e2 evs] dest_then_source [of e1 e2 evs]
  by (auto simp: run_download_def simp del: foldl_Cons stream_step.simps)

text \<open>Both orders, on the concrete streams: the destination's error first on attempt 1,
  the source's first on attempt 2.\<close>

theorem first_stream_error_rejects_attempt_witness:
  "run_download stream_both_fail ''http://a/p.png'' ''/tmp/p.png'' None 1 idle =
     (log (DownloadStream 1) idle, Inl (Error ''EACCES''))
   \<and> run_download stream_both_fail ''http://a/p.png'' ''/tmp/p.png'' None 2 idle =
     (log (DownloadStream 2) idle, Inl (Error ''ECONNRESET''))"
proof -
  have h1: "stream_both_fail 1 ''http://a/p.png'' ''/tmp/p.png'' None =
              SourceError (Error ''EACCES'') # DestError (Error ''ECONNRESET'') # []
          \<or> stream_both_fail 1 ''http://a/p.png'' ''/tmp/p.png'' None =
              DestError (Error ''EACCES'') # SourceError (Error ''ECONNRESET'') # []"
    by (simp add: stream_both_fail_def)
  have h2: "stream_both_fail 2 ''http://a/p.png'' ''/tmp/p.png'' None =
              SourceError (Error ''ECONNRESET'') # DestError (Error ''EACCES'') # []
          \<or> stream_both_fail 2 ''http://a/p.png'' ''/tmp/p.png'' None =
              DestError (Error ''ECONNRESET'') # SourceError (Error ''EACCES'') # []"
    by (simp add: stream_both_fail_def)
  from first_stream_error_rejects_attempt
         [of stream_both_fail 1 "''http://a/p.png''" "''/tmp/p.png''" None
             "Error ''EACCES''" "Error ''ECONNRESET''" "[]" idle, OF h1]
       first_stream_error_rejects_attempt
         [of stream_both_fail 2 "''http://a/p.png''" "''/tmp/p.png''" None
             "Error ''ECONNRESET''" "Error ''EACCES''" "[]" idle, OF h2]
  show ?thesis by simp
qed

section \<open>Headers of a request\<close>

text \<open>
  C6: in an execution of \<open>request\<close> whose resolvers succeed (and with no pre-request hook,
  which could rewrite the config), the headers sent on every attempt are the merge of the
  five sources in which, for a key that several sources have, the later source wins:
  default \<open>Reference\<close>, provider defaults, the caller's headers, the headers resolver's,
  the \<open>User-Agent\<close> of the user-agent resolver.
\<close>

theorem request_headers_precedence:
  assumes "provider_beforeRequest cr = None"
      and "resolve_all cr u (default_method ma) b w = (w4, Inr (rp, rua, rh, rau))"
      and "AxiosRequest i c \<in> set (drop (length (trace w4)) (trace (fst (request cr net u ma b hh w))))"
  shows "cfg_headers c =
           Some (precedence_merge
                   [[''Reference'' \<mapsto> HStr u], spread (provider_defaultHeaders cr), spread hh,
                    spread rh, userAgent_header rua])"
proof -
  let ?config = "build_config cr u (default_method ma) b hh rp rua rh rau"
  have h: "beforeRequest cr ?config = Inr ?config"
    using assms(1) by (simp add: beforeRequest_def)
  from pRetry_loop_request_events [of net ?config "opt_retry cr" "[]" 1 "opt_retry cr" w4]
  obtain evs where
    evs: "trace (fst (request cr net u ma b hh w)) = trace w4 @ AxiosRequest 1 ?config # evs"
         "\<forall>e \<in> set evs. attempt_event_of ?config e"
    by (auto simp: request_resolved [OF assms(2) h] pRetry_def)
  then have "c = ?config"
    using assms(3) by (auto simp: attempt_event_of_def)
  then show ?thesis by (simp add: build_config_headers)
qed

text \<open>On the concrete crawler: the provider's \<open>Reference\<close> beats the default one, the
  resolver's \<open>X-Key\<close> beats the caller's and the provider's, the caller's \<open>Accept\<close> stays,
  and the user-agent resolver's value beats the \<open>User-Agent\<close> of the headers resolver.\<close>

theorem request_headers_precedence_witness:
  "\<exists>h. cfg_headers example_config = Some h
      \<and> AxiosRequest 2 example_config \<in>
          set (drop (length (trace resolved))
                 (trace (fst (request example_crawler net_down ''http://a/'' None None
                                (Some caller_headers) idle))))
      \<and> h ''Reference'' = Some (HStr ''home'')
      \<and> h ''X-Key'' = Some (HStr ''resolver'')
      \<and> h ''Accept'' = Some (HStr ''text/html'')
      \<and> h ''User-Agent'' = Some (HStr ''agent-A'')"
proof -
  have h1: "provider_beforeRequest example_crawler = None" by simp
  have h2: "resolve_all example_crawler ''http://a/'' (default_method None) None idle =
      (resolved,
       Inr (Some \<lparr>host = ''10.0.0.1'', port = 8080\<rparr>, Some ''agent-A'',
            Some [''X-Key'' \<mapsto> HStr ''resolver'', ''User-Agent'' \<mapsto> HStr ''from-headers''], None))"
    by (simp add: default_method_def resolve_example)
  have h3: "AxiosRequest 2 example_config \<in>
          set (drop (length (trace resolved))
                 (trace (fst (request example_crawler net_down ''http://a/'' None None
                                (Some caller_headers) idle))))"
    by (simp add: request_example_trace resolved_def)
  from request_headers_precedence [OF h1 h2 h3] h3
  show ?thesis
    by (simp add: spread_def userAgent_header_def caller_headers_def)
qed

section \<open>Tasks injected by a response\<close>

text \<open>
  C7: \<open>downloadInQueue\<close> appends exactly one download task and does nothing else (no
  download is attempted before it returns). The task's options are the spread of the
  caller's options over \<open>headers\<close> and \<open>proxy\<close> inherited from the response's request
  config: every key the caller gives keeps the caller's value; without a caller's
  \<open>headers\<close> the task has the response's request headers minus \<open>Accept\<close>, and without a
  caller's \<open>proxy\<close> it has the response's proxy as \<open>host:port\<close>.
\<close>

theorem downloadInQueue_inherits_options:
  "queue (downloadInQueue r u filepath options w) =
     queue w @ [Task ''download'' (Some ''GET'') u
                  (Some (DownloadBody filepath (Some (inherited_options r options)))) None]
   \<and> trace (downloadInQueue r u filepath options w) = trace w
   \<and> (\<forall>k v. spread options k = Some v \<longrightarrow> inherited_options r options k = Some v)
   \<and> (spread options ''headers'' = None \<longrightarrow>
        inherited_options r options ''headers'' = Some (OHeaders (pureHeaders r)))
   \<and> (spread options ''proxy'' = None \<longrightarrow>
        inherited_options r options ''proxy'' =
          Some (case cfg_proxy (res_config (raw r)) of
                  None \<Rightarrow> OUndefined
                | Some c \<Rightarrow> OStr (host c @ '':'' @ decimal (port c))))
   \<and> pureHeaders r ''Accept'' = None
   \<and> (\<forall>k. k \<noteq> ''Accept'' \<longrightarrow> pureHeaders r k = spread (cfg_headers (res_config (raw r))) k)"
  by (auto simp: downloadInQueue_def http_download_def scheduler_push_def inherited_options_def
        map_add_def pureHeaders_def restrict_map_def proxy_string_def split: option.splits)

text \<open>The concrete response has \<open>Accept\<close> among its request headers; a caller who gives
  only \<open>retries\<close> gets a task with that key, the proxy and the headers without \<open>Accept\<close>.\<close>

theorem downloadInQueue_inherits_options_witness:
  "spread (Some [''retries'' \<mapsto> OOther ''2'']) ''retries'' = Some (OOther ''2'')
   \<and> inherited_options example_response (Some [''retries'' \<mapsto> OOther ''2'']) ''retries'' =
       Some (OOther ''2'')
   \<and> inherited_options example_response (Some [''retries'' \<mapsto> OOther ''2'']) ''headers'' =
       Some (OHeaders (pureHeaders example_response))
   \<and> inherited_options example_response (Some [''retries'' \<mapsto> OOther ''2'']) ''proxy'' =
       Some (OStr ''10.0.0.1:8080'')
   \<and> spread (cfg_headers (res_config (raw example_response))) ''Accept'' = Some (HStr ''text/html'')
   \<and> pureHeaders example_response ''Accept'' = None
   \<and> pureHeaders example_response ''Reference'' = Some (HStr ''http://a/'')
   \<and> length (queue (downloadInQueue example_response ''http://a/p.png'' ''/tmp/p.png''
                       (Some [''retries'' \<mapsto> OOther ''2'']) idle)) = 1"
  using downloadInQueue_inherits_options
          [of example_response "''http://a/p.png''" "''/tmp/p.png''"
              "Some [''retries'' \<mapsto> OOther ''2'']" idle]
  by (simp add: spread_def example_response_def decimal_8080)

text \<open>
  C8: \<open>follow\<close>, called with a truthy argument while the crawler is active, appends exactly
  one task of type \<open>request\<close>. For a bare string the task is a \<open>GET\<close> of that URL with no
  body and the single header \<open>Reference\<close>, the URL of the originating request. For a
  descriptor the task has the descriptor's method, URL and body, and its headers are the
  descriptor's, with \<open>Reference\<close> defaulting to the originating URL when the descriptor
  does not give it.
\<close>

theorem follow_pushes_one_request_task:
  assumes "active w" and "truthy_url nextUrl"
  shows "queue (follow r nextUrl w) = queue w @ [last (queue (follow r nextUrl w))]
    \<and> task_type (last (queue (follow r nextUrl w))) = ''request''
    \<and> (case nextUrl of
         UrlString s \<Rightarrow>
           last (queue (follow r nextUrl w)) =
             Task ''request'' (Some ''GET'') s None
               (Some [''Reference'' \<mapsto> HStr (cfg_url (res_config (raw r)))])
       | UrlObject c \<Rightarrow>
           task_method (last (queue (follow r nextUrl w))) = uc_method c
         \<and> task_url (last (queue (follow r nextUrl w))) = uc_url c
         \<and> task_body (last (queue (follow r nextUrl w))) = uc_body c
         \<and> (\<exists>h. task_headers (last (queue (follow r nextUrl w))) = Some h
              \<and> (\<forall>k. h k =
                    (case spread (uc_headers c) k of
                       Some v \<Rightarrow> Some v
                     | None \<Rightarrow> if k = ''Reference''
                               then Some (HStr (cfg_url (res_config (raw r)))) else None))))"
  using assms
  by (cases nextUrl)
     (auto simp: follow_def scheduler_push_def Task_def Let_def map_add_def split: option.splits)

text \<open>A bare URL and a descriptor that overrides \<open>Reference\<close>, followed from the concrete
  response.\<close>

theorem follow_pushes_one_request_task_witness:
  "active idle \<and> truthy_url (UrlString ''http://a/2'') \<and> truthy_url (UrlObject example_descriptor)
   \<and> queue (follow example_response (UrlString ''http://a/2'') idle) =
       [Task ''request'' (Some ''GET'') ''http://a/2'' None
          (Some [''Reference'' \<mapsto> HStr ''http://a/page''])]
   \<and> length (queue (follow example_response (UrlObject example_descriptor) idle)) = 1
   \<and> task_method (last (queue (follow example_response (UrlObject example_descriptor) idle))) =
       Some ''POST''
   \<and> task_body (last (queue (follow example_response (UrlObject example_descriptor) idle))) =
       Some (Data ''q=1'')
   \<and> (\<exists>h. task_headers (last (queue (follow example_response (UrlObject example_descriptor) idle))) =
             Some h
          \<and> h ''Reference'' = Some (HStr ''elsewhere'') \<and> h ''X-Key'' = Some (HStr ''caller''))"
proof -
  have a: "active idle" by simp
  have t1: "truthy_url (UrlString ''http://a/2'')" by (simp add: truthy_url_def)
  have t2: "truthy_url (UrlObject example_descriptor)" by (simp add: truthy_url_def)
  have o: "cfg_url (res_config (raw example_response)) = ''http://a/page''"
    by (simp add: example_response_def)
  have d: "uc_method example_descriptor = Some ''POST''"
    "uc_body example_descriptor = Some (Data ''q=1'')"
    "spread (uc_headers example_descriptor) ''Reference'' = Some (HStr ''elsewhere'')"
    "spread (uc_headers example_descriptor) ''X-Key'' = Some (HStr ''caller'')"
    by (simp_all add: example_descriptor_def spread_def)
  from follow_pushes_one_request_task [OF a t1, of example_response]
  have s1: "queue (follow example_response (UrlString ''http://a/2'') idle) =
              queue idle @ [last (queue (follow example_response (UrlString ''http://a/2'') idle))]"
    and s2: "last (queue (follow example_response (UrlString ''http://a/2'') idle)) =
              Task ''request'' (Some ''GET'') ''http://a/2'' None
                (Some [''Reference'' \<mapsto> HStr ''http://a/page''])"
    unfolding url.case o by blast+
  have s: "queue (follow example_response (UrlString ''http://a/2'') idle) =
       [Task ''request'' (Some ''GET'') ''http://a/2'' None
          (Some [''Reference'' \<mapsto> HStr ''http://a/page''])]"
    using s1 unfolding s2 by simp
  from follow_pushes_one_request_task [OF a t2, of example_response]
  have q: "queue (follow example_response (UrlObject example_descriptor) idle) =
             [last (queue (follow example_response (UrlObject example_descriptor) idle))]"
    and m: "task_method (last (queue (follow example_response (UrlObject example_descriptor) idle))) =
              Some ''POST''"
    and b: "task_body (last (queue (follow example_response (UrlObject example_descriptor) idle))) =
              Some (Data ''q=1'')"
    and h: "\<exists>h. task_headers (last (queue (follow example_response (UrlObject example_descriptor) idle))) =
                  Some h
              \<and> h ''Reference'' = Some (HStr ''elsewhere'') \<and> h ''X-Key'' = Some (HStr ''caller'')"
    by (auto simp: d)
  from q have l: "length (queue (follow example_response (UrlObject example_descriptor) idle)) = 1"
    by (metis length_Cons list.size(3) One_nat_def)
  from a t1 t2 s l m b h show ?thesis by blast
qed

text \<open>
  C10: when the caller's options of \<open>downloadInQueue\<close> or \<open>download\<close> have a \<open>headers\<close> key,
  the spread replaces the inherited headers as a whole: the resulting options carry the
  caller's value under \<open>headers\<close> and nothing of the response's headers, so \<open>Accept\<close> is
  there again if the caller's headers have it. \<open>downloadInQueue\<close> puts these options into
  the task it appends, \<open>download\<close> hands them to \<open>downloadResource\<close>.
\<close>

theorem caller_headers_replace_inherited:
  assumes "opts ''headers'' = Some hv"
  shows "inherited_options r (Some opts) ''headers'' = Some hv
    \<and> queue (downloadInQueue r u filepath (Some opts) w) =
        queue w @ [Task ''download'' (Some ''GET'') u
                     (Some (DownloadBody filepath (Some (inherited_options r (Some opts))))) None]
    \<and> download cr ensureDir dl r u filepath (Some opts) w =
        downloadResource cr ensureDir dl u filepath (Some (inherited_options r (Some opts))) w"
  using assms
  by (simp add: inherited_options_def spread_def map_add_def downloadInQueue_def http_download_def
        scheduler_push_def download_def)

text \<open>A caller whose headers are just \<open>Accept\<close>: the task has \<open>Accept\<close> and has lost the
  \<open>Reference\<close> of the response's request.\<close>

theorem caller_headers_replace_inherited_witness:
  "[''headers'' \<mapsto> OHeaders [''Accept'' \<mapsto> HStr ''image/png'']] ''headers'' =
     Some (OHeaders [''Accept'' \<mapsto> HStr ''image/png''])
   \<and> pureHeaders example_response ''Reference'' = Some (HStr ''http://a/'')
   \<and> inherited_options example_response
        (Some [''headers'' \<mapsto> OHeaders [''Accept'' \<mapsto> HStr ''image/png'']]) ''headers'' =
       Some (OHeaders [''Accept'' \<mapsto> HStr ''image/png''])"
proof -
  have h: "[''headers'' \<mapsto> OHeaders [''Accept'' \<mapsto> HStr ''image/png'']] ''headers'' =
     Some (OHeaders [''Accept'' \<mapsto> HStr ''image/png''])"
    by simp
  have p: "pureHeaders example_response ''Reference'' = Some (HStr ''http://a/'')"
    by (simp add: pureHeaders_def example_response_def spread_def restrict_map_def)
  from caller_headers_replace_inherited
         [where opts = "[''headers'' \<mapsto> OHeaders [''Accept'' \<mapsto> HStr ''image/png'']]"
            and hv = "OHeaders [''Accept'' \<mapsto> HStr ''image/png'']"
            and r = example_response, OF h] h p
  show ?thesis by blast
qed

end
